theory Spec2Isabelle
  imports Main "HOL-Library.Sublist"
begin

section \<open>PodValidator: data model\<close>

text \<open>
  The program is \<^verbatim>\<open>src/PodValidator/main.go\<close>. The Kubernetes API objects it reads are
  modelled with the fields the program looks at. A pointer field that may be \<^verbatim>\<open>nil\<close> is
  an \<open>option\<close>.
\<close>

record ContainerStateWaiting =
  Reason :: string
  Message :: string

record ContainerStateRunning =
  StartedAt :: string

record ContainerStateTerminated =
  ExitCode :: int
  TReason :: string
  TMessage :: string

text \<open>
  \<^verbatim>\<open>v1.ContainerState\<close> holds three pointers. The API documents that at most one of them
  is set, but the Go type allows every combination, and so does the record.
\<close>

record ContainerState =
  Waiting :: "ContainerStateWaiting option"
  Running :: "ContainerStateRunning option"
  Terminated :: "ContainerStateTerminated option"

record ContainerStatus =
  Name :: string
  Ready :: bool
  State :: ContainerState

record Pod =
  PodName :: string
  ImagePullSecrets :: "string list"
  ContainerStatuses :: "ContainerStatus list"

record DeploymentCondition =
  Type :: string
  Status :: string

record Deployment =
  Conditions :: "DeploymentCondition list"

text \<open>
  What the program writes to standard output, one entry per print call, in order.
  \<open>PrintJson\<close> stands for \<^verbatim>\<open>fmt.Println(string(status))\<close> where \<^verbatim>\<open>status\<close> is the
  indented JSON of a container state; the JSON text itself is not modelled.
\<close>

datatype printed =
    Printf string
  | Println string
  | PrintJson ContainerState

section \<open>Strings\<close>

text \<open>
  \<^verbatim>\<open>strings.ToLower\<close> on the bytes of a line: the letters \<^verbatim>\<open>A\<close> to \<^verbatim>\<open>Z\<close> become
  \<^verbatim>\<open>a\<close> to \<^verbatim>\<open>z\<close>. Go also lowers letters outside ASCII; none of them lowers to a
  letter of \<^verbatim>\<open>error\<close> or \<^verbatim>\<open>datadog\<close>, so the two substring tests of the scanner
  read the same on the byte-wise lowering.
\<close>

definition toLower_char :: "char \<Rightarrow> char" where
  "toLower_char c =
     (let n = (of_char c :: nat) in if 65 \<le> n \<and> n \<le> 90 then char_of (n + 32) else c)"

definition ToLower :: "string \<Rightarrow> string" where
  "ToLower s = map toLower_char s"

text \<open>\<^verbatim>\<open>strings.Contains(s, substr)\<close>: \<open>substr\<close> occurs in \<open>s\<close> as a contiguous block.\<close>

fun Contains :: "string \<Rightarrow> string \<Rightarrow> bool" where
  "Contains [] substr = (substr = [])"
| "Contains (c # cs) substr = (prefix substr (c # cs) \<or> Contains cs substr)"

text \<open>The filter of line 122 of \<^verbatim>\<open>getPodlogs\<close>.\<close>

definition is_error_line :: "string \<Rightarrow> bool" where
  "is_error_line line \<longleftrightarrow>
     Contains (ToLower line) ''error'' \<and> \<not> Contains (ToLower line) ''datadog''"

section \<open>The log scanner: the loop of getPodlogs\<close>

text \<open>
  One call of \<^verbatim>\<open>reader.ReadLine()\<close> returns a line or an error, never both (the
  contract of \<^verbatim>\<open>bufio.Reader.ReadLine\<close>); the end of the stream is the error whose text
  is \<^verbatim>\<open>EOF\<close>. A log stream is the sequence of results of the successive calls. It is
  a function of the call's index, so a stream that never ends, or one that fails on
  every call, is a stream too.
\<close>

datatype read_result = Line string | ReadErr string

type_synonym log_stream = "nat \<Rightarrow> read_result"

record scan_state =
  reads :: nat
  lineCount :: int
  seenLines :: "string \<Rightarrow> bool"
  out :: "printed list"

datatype ctl = Break scan_state | Continue scan_state

fun state_of :: "ctl \<Rightarrow> scan_state" where
  "state_of (Break s) = s"
| "state_of (Continue s) = s"

text \<open>Lines 121 to 132: the filter, the deduplication and the cap.\<close>

definition filter_line :: "string \<Rightarrow> scan_state \<Rightarrow> ctl" where
  "filter_line lineStr s =
     (if is_error_line lineStr then
        (if \<not> seenLines s lineStr then
           (let s' = s\<lparr>out := out s @ [Println lineStr],
                        seenLines := (seenLines s)(lineStr := True),
                        lineCount := lineCount s + 1\<rparr>
            in if lineCount s' \<ge> 10 then Break s' else Continue s')
         else Continue s)
      else Continue s)"

text \<open>
  Lines 114 to 132, one pass of the \<^verbatim>\<open>for\<close> loop. On an error other than \<^verbatim>\<open>EOF\<close> the
  program prints it and goes on to the filter with the line it got, which is empty.
\<close>

definition scan_body :: "read_result \<Rightarrow> scan_state \<Rightarrow> ctl" where
  "scan_body r s =
     (case r of
        ReadErr e \<Rightarrow>
          if e = ''EOF'' then Break (s\<lparr>reads := Suc (reads s)\<rparr>)
          else filter_line []
                 (s\<lparr>reads := Suc (reads s),
                    out := out s @ [Printf (''Error reading logs: '' @ e)]\<rparr>)
      | Line l \<Rightarrow> filter_line l (s\<lparr>reads := Suc (reads s)\<rparr>))"

text \<open>
  The loop itself. It has no bound of its own: it ends at \<^verbatim>\<open>EOF\<close> or at the tenth
  collected line. \<open>None\<close> is a loop that never ends.
\<close>

partial_function (option) scan_loop :: "log_stream \<Rightarrow> scan_state \<Rightarrow> scan_state option" where
  "scan_loop rd s =
     (case scan_body (rd (reads s)) s of
        Break s' \<Rightarrow> Some s'
      | Continue s' \<Rightarrow> scan_loop rd s')"

definition scan_init :: scan_state where
  "scan_init = \<lparr>reads = 0, lineCount = 0, seenLines = (\<lambda>_. False), out = []\<rparr>"

text \<open>The state of the loop after \<open>n\<close> passes (or where it stopped, if it stopped before).\<close>

primrec scan_iter :: "log_stream \<Rightarrow> nat \<Rightarrow> ctl" where
  "scan_iter rd 0 = Continue scan_init"
| "scan_iter rd (Suc n) =
     (case scan_iter rd n of
        Break s \<Rightarrow> Break s
      | Continue s \<Rightarrow> scan_body (rd (reads s)) s)"

text \<open>The evidence: the lines printed by \<^verbatim>\<open>fmt.Println(lineStr)\<close> (line 125), in order.\<close>

fun evidence :: "printed list \<Rightarrow> string list" where
  "evidence [] = []"
| "evidence (Println l # os) = l # evidence os"
| "evidence (Printf _ # os) = evidence os"
| "evidence (PrintJson _ # os) = evidence os"

definition scan :: "log_stream \<Rightarrow> string list option" where
  "scan rd = map_option (\<lambda>s. evidence (out s)) (scan_loop rd scan_init)"

section \<open>Diagnostics: getPodlogs and printPodStatus\<close>

text \<open>
  How a call ends: it returns, or it panics (the Go runtime then stops the process with
  exit status 2). A call that never returns is \<open>None\<close>. With it comes what the call
  printed before it ended.
\<close>

datatype fstatus = Returned | Panicked string

type_synonym run = "(printed list \<times> fstatus) option"

text \<open>
  The cluster as the diagnostics see it through \<^verbatim>\<open>clientset\<close>:
  \<open>SecretsGet namespace name\<close> is the result of \<^verbatim>\<open>Secrets(namespace).Get\<close>, and
  \<open>GetLogsStream namespace pod container\<close> the result of \<^verbatim>\<open>GetLogs(...).Stream\<close>,
  which is an error with a \<^verbatim>\<open>nil\<close> stream, or a stream.
\<close>

datatype get_result = Found | GetErr string

datatype stream_result = StreamErr string | Stream log_stream

record Cluster =
  SecretsGet :: "string \<Rightarrow> string \<Rightarrow> get_result"
  GetLogsStream :: "string \<Rightarrow> string \<Rightarrow> string \<Rightarrow> stream_result"

definition nil_dereference :: string where
  "nil_dereference = ''runtime error: invalid memory address or nil pointer dereference''"

definition index_out_of_range :: string where
  "index_out_of_range = ''runtime error: index out of range [0] with length 0''"

text \<open>
  \<^verbatim>\<open>getPodlogs\<close>, lines 95 to 134. When \<^verbatim>\<open>Stream\<close> fails the program prints the error
  and goes on (there is no return at line 107) with \<^verbatim>\<open>podLogs\<close> \<^verbatim>\<open>nil\<close>; the next
  statement, \<^verbatim>\<open>defer podLogs.Close()\<close>, evaluates a method of a \<^verbatim>\<open>nil\<close> interface
  value and panics. The deferred \<^verbatim>\<open>Close\<close> of an open stream prints nothing and is
  left out.
\<close>

definition getPodlogs :: "string \<Rightarrow> ContainerStatus \<Rightarrow> string \<Rightarrow> Cluster \<Rightarrow> run" where
  "getPodlogs podName container namespace clientset =
     (let head = [Printf (''Conatiner['' @ Name container @ '']:''),
                  PrintJson (State container)]
      in case GetLogsStream clientset namespace podName (Name container) of
           StreamErr e \<Rightarrow>
             Some (head @ [Printf (''Error getting logs: '' @ e)], Panicked nil_dereference)
         | Stream rd \<Rightarrow>
             (case scan_loop rd scan_init of
                None \<Rightarrow> None
              | Some s \<Rightarrow>
                  Some (head @ [Printf ''\<newline>\<newline>[NOTE] Reason for Error:\<newline>\<newline>''] @ out s,
                        Returned)))"

text \<open>Texts of the explanations of \<^verbatim>\<open>printPodStatus\<close> (lines 149, 151, 157 to 161).\<close>

definition secret_missing_note :: "string \<Rightarrow> string \<Rightarrow> string \<Rightarrow> string" where
  "secret_missing_note secretName err namespace =
     ''\<newline>\<newline>[NOTE] Reason for ImagePullBackOff: Error getting secret '' @ secretName @ '': '' @ err
       @ '' in namspace '' @ namespace @ '', please add them\<newline>\<newline>''"

definition secret_present_note :: "string \<Rightarrow> string \<Rightarrow> string" where
  "secret_present_note secretName namespace =
     ''\<newline>\<newline>[NOTE] Reason for ImagePullBackOff:'' @ [char_of (9::nat)] @ ''Secret '' @ secretName
       @ '' is present in namespace '' @ namespace
       @ '', this error could be due to expired or wrong values in the secret\<newline>\<newline>''"

definition config_error_note :: "string \<Rightarrow> string" where
  "config_error_note msg =
     ''\<newline>\<newline>[NOTE] Reason for CreateContainerConfigError: '' @ msg @ ''\<newline>''"

definition secretKeyRef_hint :: string where
  "secretKeyRef_hint =
     ''Check if the env block in deployment yaml has correct \"secretKeyRef\", also see the \"SecretStore\" if the secret is from vault''"

definition configMapKeyRef_hint :: string where
  "configMapKeyRef_hint =
     ''Check if the env block in deployment yaml has correct \"configMapKeyRef\" to the volume mount''"

definition running_note :: "string \<Rightarrow> string" where
  "running_note name = ''Container '' @ name @ '' is in running state\<newline>''"

text \<open>
  The body of the inner loop of \<^verbatim>\<open>printPodStatus\<close>, lines 141 to 171, for one container
  of one pod. Line 146 reads \<^verbatim>\<open>pod.Spec.ImagePullSecrets[0]\<close> with no check of the
  length: on an empty slice Go panics.
\<close>

definition printContainerStatus :: "Pod \<Rightarrow> ContainerStatus \<Rightarrow> Cluster \<Rightarrow> string \<Rightarrow> run" where
  "printContainerStatus pod container clientset namespace =
     (if Running (State container) = None \<or> \<not> Ready container then
        (case Waiting (State container) of
           Some w \<Rightarrow>
             if Reason w = ''ImagePullBackOff'' \<or> Reason w = ''ErrImagePull'' then
               (case ImagePullSecrets pod of
                  [] \<Rightarrow> Some ([PrintJson (State container)], Panicked index_out_of_range)
                | secretName # _ \<Rightarrow>
                    (case SecretsGet clientset namespace secretName of
                       GetErr err \<Rightarrow>
                         Some ([PrintJson (State container),
                                Printf (secret_missing_note secretName err namespace)], Returned)
                     | Found \<Rightarrow>
                         Some ([PrintJson (State container),
                                Printf (secret_present_note secretName namespace)], Returned)))
             else if Reason w = ''CreateContainerConfigError'' then
               (if Contains (Message w) ''secret'' then
                  Some ([PrintJson (State container),
                         Printf (config_error_note secretKeyRef_hint)], Returned)
                else
                  Some ([PrintJson (State container),
                         Printf (config_error_note configMapKeyRef_hint)], Returned))
             else getPodlogs (PodName pod) container namespace clientset
         | None \<Rightarrow> getPodlogs (PodName pod) container namespace clientset)
      else Some ([Printf (running_note (Name container))], Returned))"

text \<open>
  Statements in sequence: the second runs only when the first returned; a panic or a
  call that never returns ends the sequence there.
\<close>

definition then_run :: "run \<Rightarrow> run \<Rightarrow> run" where
  "then_run r1 r2 =
     (case r1 of
        None \<Rightarrow> None
      | Some (o1, Panicked m) \<Rightarrow> Some (o1, Panicked m)
      | Some (o1, Returned) \<Rightarrow>
          (case r2 of None \<Rightarrow> None | Some (o2, st) \<Rightarrow> Some (o1 @ o2, st)))"

fun run_all :: "run list \<Rightarrow> run" where
  "run_all [] = Some ([], Returned)"
| "run_all (r # rs) = then_run r (run_all rs)"

definition pod_banner :: "string \<Rightarrow> string" where
  "pod_banner name =
     ''\<newline>-------------------------------------------------\<newline>Pod status ['' @ name
       @ '']:\<newline>-------------------------------------------------\<newline>\<newline>''"

text \<open>\<^verbatim>\<open>printPodStatus\<close>, lines 136 to 174: every pod, and every container of it, in order.\<close>

definition printPodStatus :: "Pod list \<Rightarrow> Cluster \<Rightarrow> string \<Rightarrow> run" where
  "printPodStatus pods clientset namespace =
     run_all (map (\<lambda>pod.
        then_run (Some ([Printf (pod_banner (PodName pod))], Returned))
          (run_all (map (\<lambda>container. printContainerStatus pod container clientset namespace)
             (ContainerStatuses pod))))
        pods)"

text \<open>
  The decision that the branches of lines 141 to 171 take, as a tag: the same conditions
  in the same nesting, each branch named by what it does.
\<close>

datatype classification = HealthyRunning | KnownReason string string | RequiresLogScan

definition classify :: "ContainerStatus \<Rightarrow> classification" where
  "classify container =
     (if Running (State container) = None \<or> \<not> Ready container then
        (case Waiting (State container) of
           Some w \<Rightarrow>
             if Reason w = ''ImagePullBackOff'' \<or> Reason w = ''ErrImagePull'' then
               KnownReason (Reason w) (Message w)
             else if Reason w = ''CreateContainerConfigError'' then
               KnownReason (Reason w) (Message w)
             else RequiresLogScan
         | None \<Rightarrow> RequiresLogScan)
      else HealthyRunning)"

text \<open>
  The classifier as the specification words it (section 4.2): four rules, the first
  that matches wins. A state is Running when the \<open>Running\<close> member is set and Waiting
  when the \<open>Waiting\<close> member is set.
\<close>

definition classify_spec :: "ContainerStatus \<Rightarrow> classification" where
  "classify_spec snapshot =
     (let st = State snapshot in
      if Running st \<noteq> None \<and> Ready snapshot then HealthyRunning
      else if Waiting st \<noteq> None
              \<and> Reason (the (Waiting st)) \<in> {''ImagePullBackOff'', ''ErrImagePull''} then
        KnownReason (Reason (the (Waiting st))) (Message (the (Waiting st)))
      else if Waiting st \<noteq> None
              \<and> Reason (the (Waiting st)) = ''CreateContainerConfigError'' then
        KnownReason (Reason (the (Waiting st))) (Message (the (Waiting st)))
      else RequiresLogScan)"

text \<open>What \<^verbatim>\<open>printPodStatus\<close> does with a container of each class (lines 141 to 171).\<close>

definition act_on :: "classification \<Rightarrow> Pod \<Rightarrow> ContainerStatus \<Rightarrow> Cluster \<Rightarrow> string \<Rightarrow> run" where
  "act_on cls pod container clientset namespace =
     (case cls of
        HealthyRunning \<Rightarrow> Some ([Printf (running_note (Name container))], Returned)
      | RequiresLogScan \<Rightarrow> getPodlogs (PodName pod) container namespace clientset
      | KnownReason reason message \<Rightarrow>
          if reason = ''CreateContainerConfigError'' then
            Some ([PrintJson (State container),
                   Printf (config_error_note
                     (if Contains message ''secret'' then secretKeyRef_hint
                      else configMapKeyRef_hint))], Returned)
          else
            (case ImagePullSecrets pod of
               [] \<Rightarrow> Some ([PrintJson (State container)], Panicked index_out_of_range)
             | secretName # _ \<Rightarrow>
                 Some ([PrintJson (State container),
                        Printf (case SecretsGet clientset namespace secretName of
                                  GetErr err \<Rightarrow> secret_missing_note secretName err namespace
                                | Found \<Rightarrow> secret_present_note secretName namespace)],
                       Returned)))"

section \<open>The rollout loop of main\<close>

text \<open>\<^verbatim>\<open>printDeploymentStatus\<close>, lines 86 to 93: a pure function of the object it is given.\<close>

fun available_in :: "DeploymentCondition list \<Rightarrow> bool" where
  "available_in [] = False"
| "available_in (condition # rest) =
     (if Type condition = ''Available'' \<and> Status condition = ''True'' then True
      else available_in rest)"

definition printDeploymentStatus :: "Deployment \<Rightarrow> bool" where
  "printDeploymentStatus deployment = available_in (Conditions deployment)"

text \<open>
  What a run of the loop does, in order. \<open>Readiness count b\<close> is one evaluation of
  \<^verbatim>\<open>printDeploymentStatus(deployment)\<close>, with the value of \<^verbatim>\<open>count\<close> at that moment and
  the result; \<open>Diagnostics r\<close> is the call of \<^verbatim>\<open>printPodStatus\<close> and how it went;
  \<open>Fatalf\<close> is \<^verbatim>\<open>log.Fatalf\<close>, which writes its text and exits with status 1.
\<close>

datatype event =
    Readiness int bool
  | Stdout string
  | Sleep nat
  | Diagnostics run
  | Fatalf string

text \<open>How the process ends: with an exit status, or never.\<close>

datatype ending = Exit int | NoExit

definition success_banner :: "string \<Rightarrow> string" where
  "success_banner deploymentName =
     ''\<newline>\<newline>\<newline>------------------------------------------\<newline>[INFO] Deployment Status [''
       @ deploymentName @ '']:\<newline>------------------------------------------\<newline>''"

definition failure_banner :: "string \<Rightarrow> string" where
  "failure_banner deploymentName =
     ''\<newline>\<newline>\<newline>------------------------------------------\<newline>[Error] Deployment Status [''
       @ deploymentName @ '']:\<newline>------------------------------------------\<newline>''"

text \<open>The other texts of the loop (lines 71, 74, 77 and 79).\<close>

definition success_text :: string where
  "success_text = ''Deployment successfull.\<newline>\<newline>''"

definition checking_notice :: string where
  "checking_notice = ''\<newline>[ERROR] Deployment is not up yet, checking pod logs \<newline>''"

definition failed_text :: string where
  "failed_text = ''Deployment failed.\<newline>\<newline>''"

definition waiting_notice :: string where
  "waiting_notice = ''[WARN] Deployment is not up yet, trying again in 60 secs... \<newline>''"

text \<open>
  The loop of lines 68 to 83, started with \<^verbatim>\<open>count\<close> at any value (line 67 sets 6).
  \<^verbatim>\<open>deployment\<close> is a pointer: \<open>view i\<close> is the object behind it when the loop evaluates
  \<^verbatim>\<open>printDeploymentStatus(deployment)\<close> for the \<open>i\<close>-th time, counted from 0. \<open>diag\<close> is
  how the call of \<^verbatim>\<open>printPodStatus\<close> at line 75 goes; the loop makes it at most once.
  After \<^verbatim>\<open>count = 0\<close> (line 72) the loop condition fails and \<^verbatim>\<open>main\<close> returns: exit
  status 0.
\<close>

function rollout_loop ::
  "(nat \<Rightarrow> Deployment) \<Rightarrow> run \<Rightarrow> string \<Rightarrow> nat \<Rightarrow> int \<Rightarrow> event list \<times> ending" where
  "rollout_loop view diag deploymentName i count =
     (if count > 0 then
        (if printDeploymentStatus (view i) then
           (case rollout_loop view diag deploymentName (Suc i) 0 of
              (es, e) \<Rightarrow>
                (Readiness count True # Stdout (success_banner deploymentName)
                   # Stdout success_text # es, e))
         else if count = 1 then
           (case diag of
              None \<Rightarrow>
                ([Readiness count False,
                  Stdout checking_notice,
                  Diagnostics diag], NoExit)
            | Some (printed, Panicked m) \<Rightarrow>
                ([Readiness count False,
                  Stdout checking_notice,
                  Diagnostics diag], Exit 2)
            | Some (printed, Returned) \<Rightarrow>
                ([Readiness count False,
                  Stdout checking_notice,
                  Diagnostics diag,
                  Stdout (failure_banner deploymentName),
                  Fatalf failed_text], Exit 1))
         else
           (case rollout_loop view diag deploymentName (Suc i) (count - 1) of
              (es, e) \<Rightarrow>
                (Readiness count False
                   # Stdout waiting_notice
                   # Sleep 2 # es, e)))
      else ([], Exit 0))"
  by pat_completeness auto
termination
  by (relation "measure (\<lambda>(view, diag, deploymentName, i, count). nat count)") auto

text \<open>
  \<^verbatim>\<open>main\<close> from line 52 on, when the set-up and the two fetches succeed.
  \<open>cluster_deployment t\<close> is the Deployment object the cluster would return to a
  \<^verbatim>\<open>Get\<close> at the time of the loop's \<open>t\<close>-th readiness check (counted from 0); line 52,
  just before the loop, gets the object of time 0. The program calls \<^verbatim>\<open>Get\<close> there and
  nowhere else, and nothing writes to the object it got: every check reads that object.
\<close>

definition main_run ::
  "(nat \<Rightarrow> Deployment) \<Rightarrow> Pod list \<Rightarrow> Cluster \<Rightarrow> string \<Rightarrow> string \<Rightarrow> event list \<times> ending" where
  "main_run cluster_deployment pods clientset namespace deploymentName =
     (let deployment = cluster_deployment 0
      in rollout_loop (\<lambda>_. deployment) (printPodStatus pods clientset namespace)
           deploymentName 0 6)"

text \<open>Projections of a run, for counting.\<close>

fun readiness_results :: "event list \<Rightarrow> bool list" where
  "readiness_results [] = []"
| "readiness_results (Readiness c b # es) = b # readiness_results es"
| "readiness_results (_ # es) = readiness_results es"

fun readiness_counts :: "event list \<Rightarrow> int list" where
  "readiness_counts [] = []"
| "readiness_counts (Readiness c b # es) = c # readiness_counts es"
| "readiness_counts (_ # es) = readiness_counts es"

fun sleeps :: "event list \<Rightarrow> nat" where
  "sleeps [] = 0"
| "sleeps (Sleep d # es) = Suc (sleeps es)"
| "sleeps (_ # es) = sleeps es"

fun diagnostics_calls :: "event list \<Rightarrow> nat" where
  "diagnostics_calls [] = 0"
| "diagnostics_calls (Diagnostics r # es) = Suc (diagnostics_calls es)"
| "diagnostics_calls (_ # es) = diagnostics_calls es"

text \<open>The readiness checks and the sleeps of a run, everything else dropped.\<close>

fun checks_and_sleeps :: "event list \<Rightarrow> event list" where
  "checks_and_sleeps [] = []"
| "checks_and_sleeps (Readiness c b # es) = Readiness c b # checks_and_sleeps es"
| "checks_and_sleeps (Sleep d # es) = Sleep d # checks_and_sleeps es"
| "checks_and_sleeps (_ # es) = checks_and_sleeps es"

text \<open>
  The shape the claims give to a run that makes \<open>k\<close> checks from \<open>count = n\<close>: the checks
  with the counter going down by one, all false but the last, which is \<open>b\<close>, and one
  sleep of 2 seconds between two checks.
\<close>

fun countdown :: "int \<Rightarrow> nat \<Rightarrow> bool \<Rightarrow> event list" where
  "countdown n 0 b = []"
| "countdown n (Suc 0) b = [Readiness n b]"
| "countdown n (Suc (Suc k)) b = Readiness n False # Sleep 2 # countdown (n - 1) (Suc k) b"

section \<open>Predicates of the proofs\<close>

text \<open>
  The invariant of the scanner's loop, for a stream \<open>rd\<close>: \<^verbatim>\<open>lineCount\<close> counts the
  evidence, the evidence has no duplicates, \<^verbatim>\<open>seenLines\<close> holds exactly the evidence, and
  the evidence is exactly the set of lines read so far that pass the filter.
\<close>

definition scan_inv :: "log_stream \<Rightarrow> scan_state \<Rightarrow> bool" where
  "scan_inv rd s \<longleftrightarrow>
     lineCount s = int (length (evidence (out s))) \<and>
     lineCount s \<le> 10 \<and>
     distinct (evidence (out s)) \<and>
     (\<forall>l. seenLines s l \<longleftrightarrow> l \<in> set (evidence (out s))) \<and>
     set (evidence (out s)) = {l. is_error_line l \<and> (\<exists>i<reads s. rd i = Line l)}"

fun ctl_inv :: "log_stream \<Rightarrow> ctl \<Rightarrow> bool" where
  "ctl_inv rd (Continue s) = (scan_inv rd s \<and> lineCount s < 10)"
| "ctl_inv rd (Break s) = scan_inv rd s"

text \<open>What claim C6 asks of an evidence list.\<close>

definition evidence_ok :: "string list \<Rightarrow> bool" where
  "evidence_ok ev \<longleftrightarrow>
     length ev \<le> 10 \<and> distinct ev \<and> (\<forall>l \<in> set ev. \<not> Contains (ToLower l) ''datadog'')"

fun stopped :: "ctl \<Rightarrow> bool" where
  "stopped (Break s) = True"
| "stopped (Continue s) = False"

text \<open>Concrete inputs on which the theorems are exercised.\<close>

definition sample_log :: log_stream where
  "sample_log i =
     (if i = 0 then Line ''Error: disk full''
      else if i = 1 then Line ''datadog error: agent down''
      else if i = 2 then Line ''Error: disk full''
      else if i = 3 then Line ''started''
      else ReadErr ''EOF'')"


text \<open>
  \<open>k\<close> passes of the loop that found the deployment not ready and went to sleep, the
  first with \<^verbatim>\<open>count = n\<close>.
\<close>

fun waiting_rounds :: "int \<Rightarrow> nat \<Rightarrow> event list" where
  "waiting_rounds n 0 = []"
| "waiting_rounds n (Suc k) =
     Readiness n False # Stdout waiting_notice # Sleep 2 # waiting_rounds (n - 1) k"

text \<open>The last pass (\<^verbatim>\<open>count = 1\<close>) when it finds the deployment not ready, lines 74 to 77.\<close>

definition failure_tail :: "run \<Rightarrow> string \<Rightarrow> event list \<times> ending" where
  "failure_tail diag deploymentName =
     (case diag of
        None \<Rightarrow> ([Readiness 1 False, Stdout checking_notice, Diagnostics diag], NoExit)
      | Some (printed, Panicked m) \<Rightarrow>
          ([Readiness 1 False, Stdout checking_notice, Diagnostics diag], Exit 2)
      | Some (printed, Returned) \<Rightarrow>
          ([Readiness 1 False, Stdout checking_notice, Diagnostics diag,
            Stdout (failure_banner deploymentName), Fatalf failed_text], Exit 1))"

definition ready_deployment :: Deployment where
  "ready_deployment =
     \<lparr>Conditions = [\<lparr>Type = ''Progressing'', Status = ''True''\<rparr>,
                    \<lparr>Type = ''Available'', Status = ''True''\<rparr>]\<rparr>"

definition unready_deployment :: Deployment where
  "unready_deployment =
     \<lparr>Conditions = [\<lparr>Type = ''Available'', Status = ''False''\<rparr>,
                    \<lparr>Type = ''Progressing'', Status = ''True''\<rparr>]\<rparr>"

definition ready_from :: "nat \<Rightarrow> nat \<Rightarrow> Deployment" where
  "ready_from k t = (if k \<le> t then ready_deployment else unready_deployment)"

text \<open>Rule 1 of the classifier: the state is Running and the container is ready.\<close>

definition is_healthy :: "ContainerStatus \<Rightarrow> bool" where
  "is_healthy c \<longleftrightarrow> Running (State c) \<noteq> None \<and> Ready c"

definition pull_backoff_container :: ContainerStatus where
  "pull_backoff_container =
     \<lparr>Name = ''app'', Ready = False,
      State = \<lparr>Waiting = Some \<lparr>Reason = ''ImagePullBackOff'', Message = ''Back-off pulling image''\<rparr>,
               Running = None, Terminated = None\<rparr>\<rparr>"

definition unready_running_container :: ContainerStatus where
  "unready_running_container =
     \<lparr>Name = ''app'', Ready = False,
      State = \<lparr>Waiting = None, Running = Some \<lparr>StartedAt = ''2024-01-01T00:00:00Z''\<rparr>,
               Terminated = None\<rparr>\<rparr>"


text \<open>Concrete pods and clusters on which the failure paths of the diagnostics are run.\<close>

definition no_secret_pod :: Pod where
  "no_secret_pod =
     \<lparr>PodName = ''web-1'', ImagePullSecrets = [], ContainerStatuses = [pull_backoff_container]\<rparr>"

definition crashed_container :: ContainerStatus where
  "crashed_container =
     \<lparr>Name = ''app'', Ready = False,
      State = \<lparr>Waiting = None, Running = None,
               Terminated = Some \<lparr>ExitCode = 1, TReason = ''Error'', TMessage = []\<rparr>\<rparr>\<rparr>"

definition crashed_pod :: Pod where
  "crashed_pod =
     \<lparr>PodName = ''web-2'', ImagePullSecrets = [''regcred''],
      ContainerStatuses = [crashed_container]\<rparr>"

definition quiet_cluster :: Cluster where
  "quiet_cluster =
     \<lparr>SecretsGet = (\<lambda>namespace name. Found),
      GetLogsStream = (\<lambda>namespace pod container. Stream (\<lambda>i. ReadErr ''EOF''))\<rparr>"

definition no_logs_cluster :: Cluster where
  "no_logs_cluster =
     \<lparr>SecretsGet = (\<lambda>namespace name. Found),
      GetLogsStream = (\<lambda>namespace pod container. StreamErr ''container is waiting to start'')\<rparr>"

definition broken_stream_cluster :: Cluster where
  "broken_stream_cluster =
     \<lparr>SecretsGet = (\<lambda>namespace name. Found),
      GetLogsStream =
        (\<lambda>namespace pod container. Stream (\<lambda>i. ReadErr ''connection reset by peer''))\<rparr>"

definition healthy_container :: ContainerStatus where
  "healthy_container =
     \<lparr>Name = ''sidecar'', Ready = True,
      State = \<lparr>Waiting = None, Running = Some \<lparr>StartedAt = ''2024-01-01T00:00:00Z''\<rparr>,
               Terminated = None\<rparr>\<rparr>"

definition healthy_pod :: Pod where
  "healthy_pod =
     \<lparr>PodName = ''web-3'', ImagePullSecrets = [''regcred''],
      ContainerStatuses = [healthy_container]\<rparr>"

section \<open>Log text and the results of ReadLine\<close>







text \<open>
  What the specification asks of the scan, in its words: the distinct qualifying lines in
  the order of their first occurrence, the first 10 of them. \<open>first_index rs l\<close> is the
  position of the first occurrence of \<open>l\<close> in \<open>rs\<close>.
\<close>

function first_occurrences :: "string list \<Rightarrow> string list" where
  "first_occurrences [] = []"
| "first_occurrences (x # xs) = x # first_occurrences (removeAll x xs)"
  by pat_completeness auto
termination by (relation "measure length") (auto simp: less_Suc_eq_le length_removeAll_less_eq)







section \<open>The place of a container in the report\<close>

text \<open>
  The state of a container is one of Waiting, Running and Terminated: at most one of the
  three pointers of \<^verbatim>\<open>ContainerState\<close> is set. A snapshot with none set has no state.
\<close>

definition state_Running :: "ContainerStatus \<Rightarrow> bool" where
  "state_Running c \<longleftrightarrow>
     Running (State c) \<noteq> None \<and> Waiting (State c) = None \<and> Terminated (State c) = None"

definition state_Terminated :: "ContainerStatus \<Rightarrow> bool" where
  "state_Terminated c \<longleftrightarrow>
     Terminated (State c) \<noteq> None \<and> Waiting (State c) = None \<and> Running (State c) = None"

definition state_less :: "ContainerStatus \<Rightarrow> bool" where
  "state_less c \<longleftrightarrow>
     Waiting (State c) = None \<and> Running (State c) = None \<and> Terminated (State c) = None"

text \<open>
  For a container \<open>c\<close> of a pod, with the containers \<open>before\<close> it and \<open>after\<close> it in the
  pod and the pods \<open>earlier\<close> and \<open>later\<close> in the list: what \<^verbatim>\<open>printPodStatus\<close> does
  before it comes to \<open>c\<close>, and what it does after \<open>c\<close>.
\<close>

definition report_before :: "Pod list \<Rightarrow> Pod \<Rightarrow> ContainerStatus list \<Rightarrow> Cluster \<Rightarrow> string \<Rightarrow> run" where
  "report_before earlier pod before clientset namespace =
     then_run (printPodStatus earlier clientset namespace)
       (then_run (Some ([Printf (pod_banner (PodName pod))], Returned))
          (run_all (map (\<lambda>container. printContainerStatus pod container clientset namespace) before)))"

definition report_after :: "Pod \<Rightarrow> ContainerStatus list \<Rightarrow> Pod list \<Rightarrow> Cluster \<Rightarrow> string \<Rightarrow> run" where
  "report_after pod after later clientset namespace =
     then_run
       (run_all (map (\<lambda>container. printContainerStatus pod container clientset namespace) after))
       (printPodStatus later clientset namespace)"

definition unready_pod :: Pod where
  "unready_pod =
     \<lparr>PodName = ''web-4'', ImagePullSecrets = [''regcred''],
      ContainerStatuses = [unready_running_container]\<rparr>"

section \<open>The scanner: invariant and termination points\<close>

lemma not_error_Nil [simp]: "\<not> is_error_line []"
  by (simp add: is_error_line_def ToLower_def)

lemma evidence_append [simp]: "evidence (xs @ ys) = evidence xs @ evidence ys"
  by (induction xs rule: evidence.induct) simp_all

lemma scan_init_inv: "scan_inv rd scan_init"
  by (simp add: scan_inv_def scan_init_def)

lemma filter_line_inv:
  assumes "reads s = Suc n" "scan_inv rd (s\<lparr>reads := n\<rparr>)" "lineCount s < 10"
    "rd n = Line l \<or> (l = [] \<and> (\<forall>l'. rd n \<noteq> Line l'))"
  shows "ctl_inv rd (filter_line l s)"
  using assms
  by (auto simp: filter_line_def scan_inv_def Let_def less_Suc_eq)

lemma scan_body_inv:
  assumes "scan_inv rd s" "lineCount s < 10"
  shows "ctl_inv rd (scan_body (rd (reads s)) s)"
proof (cases "rd (reads s)")
  case (Line l)
  have "ctl_inv rd (filter_line l (s\<lparr>reads := Suc (reads s)\<rparr>))"
    by (rule filter_line_inv [where n = "reads s"]) (use assms Line in simp_all)
  then show ?thesis by (simp add: scan_body_def Line)
next
  case (ReadErr e)
  show ?thesis
  proof (cases "e = ''EOF''")
    case True
    then show ?thesis using assms ReadErr
      by (auto simp: scan_body_def scan_inv_def less_Suc_eq)
  next
    case False
    have "ctl_inv rd (filter_line []
            (s\<lparr>reads := Suc (reads s), out := out s @ [Printf (''Error reading logs: '' @ e)]\<rparr>))"
      by (rule filter_line_inv [where n = "reads s"])
        (use assms ReadErr in \<open>simp_all add: scan_inv_def\<close>)
    then show ?thesis using False by (simp add: scan_body_def ReadErr)
  qed
qed

lemma scan_iter_inv: "ctl_inv rd (scan_iter rd n)"
proof (induction n)
  case 0
  show ?case by (simp add: scan_init_inv) (simp add: scan_init_def)
next
  case (Suc n)
  show ?case
  proof (cases "scan_iter rd n")
    case (Break s)
    with Suc show ?thesis by simp
  next
    case (Continue s)
    with Suc show ?thesis by (simp add: scan_body_inv)
  qed
qed

lemma scan_loop_reaches_aux:
  assumes "scan_loop rd s = Some r"
  shows "\<forall>n. scan_iter rd n = Continue s \<longrightarrow> (\<exists>m. scan_iter rd m = Break r)"
proof (rule scan_loop.raw_induct
    [where P = "\<lambda>rd s r. \<forall>n. scan_iter rd n = Continue s \<longrightarrow> (\<exists>m. scan_iter rd m = Break r)",
      OF _ assms])
  fix loop' :: "log_stream \<Rightarrow> scan_state \<Rightarrow> scan_state option" and rd s r
  assume IH: "\<And>rd s r. loop' rd s = Some r \<Longrightarrow>
      \<forall>n. scan_iter rd n = Continue s \<longrightarrow> (\<exists>m. scan_iter rd m = Break r)"
    and step: "(case scan_body (rd (reads s)) s of Break s' \<Rightarrow> Some s' | Continue s' \<Rightarrow> loop' rd s') = Some r"
  show "\<forall>n. scan_iter rd n = Continue s \<longrightarrow> (\<exists>m. scan_iter rd m = Break r)"
  proof (intro allI impI)
    fix n assume n: "scan_iter rd n = Continue s"
    show "\<exists>m. scan_iter rd m = Break r"
    proof (cases "scan_body (rd (reads s)) s")
      case (Break s')
      with step n have "scan_iter rd (Suc n) = Break r" by simp
      then show ?thesis ..
    next
      case (Continue s')
      with step n have "loop' rd s' = Some r" "scan_iter rd (Suc n) = Continue s'" by simp_all
      with IH show ?thesis by blast
    qed
  qed
qed

lemma scan_loop_reaches:
  "scan_loop rd s = Some r \<Longrightarrow> scan_iter rd n = Continue s \<Longrightarrow> \<exists>m. scan_iter rd m = Break r"
  using scan_loop_reaches_aux by blast

lemma scan_iter_Continue_loop:
  "scan_iter rd n = Continue s \<Longrightarrow> scan_loop rd s = scan_loop rd scan_init"
proof (induction n arbitrary: s)
  case 0
  then show ?case by simp
next
  case (Suc n)
  then obtain s0 where s0: "scan_iter rd n = Continue s0" "scan_body (rd (reads s0)) s0 = Continue s"
    by (auto split: ctl.splits)
  have "scan_loop rd s0 = scan_loop rd s"
    by (subst scan_loop.simps) (simp add: s0)
  with Suc.IH [OF s0(1)] show ?case by simp
qed

lemma scan_iter_Break_loop:
  "scan_iter rd n = Break r \<Longrightarrow> scan_loop rd scan_init = Some r"
proof (induction n)
  case 0
  then show ?case by simp
next
  case (Suc n)
  show ?case
  proof (cases "scan_iter rd n")
    case (Break s)
    with Suc show ?thesis by simp
  next
    case (Continue s)
    with Suc.prems have "scan_body (rd (reads s)) s = Break r" by simp
    then have "scan_loop rd s = Some r"
      by (subst scan_loop.simps) simp
    with scan_iter_Continue_loop [OF Continue] show ?thesis by simp
  qed
qed

lemma scan_loop_iff: "scan_loop rd scan_init = Some r \<longleftrightarrow> (\<exists>n. scan_iter rd n = Break r)"
  using scan_loop_reaches [of rd scan_init r 0] scan_iter_Break_loop [of rd _ r]
  by auto

lemma scan_loop_inv: "scan_loop rd scan_init = Some r \<Longrightarrow> scan_inv rd r"
  using scan_iter_inv [of rd] by (auto simp: scan_loop_iff) (metis ctl_inv.simps(2))


lemma scan_inv_evidence_ok: "scan_inv rd s \<Longrightarrow> evidence_ok (evidence (out s))"
  by (auto simp: scan_inv_def evidence_ok_def is_error_line_def)

lemma ctl_inv_state_of: "ctl_inv rd c \<Longrightarrow> scan_inv rd (state_of c)"
  by (cases c) simp_all

lemma scan_by_iter:
  "stopped (scan_iter rd n) \<Longrightarrow> scan rd = Some (evidence (out (state_of (scan_iter rd n))))"
  by (cases "scan_iter rd n") (simp_all add: scan_def scan_iter_Break_loop)

lemma scan_sample_log: "scan sample_log = Some [''Error: disk full'']"
proof -
  have "stopped (scan_iter sample_log 5)" by code_simp
  moreover have "evidence (out (state_of (scan_iter sample_log 5))) = [''Error: disk full'']"
    by code_simp
  ultimately show ?thesis using scan_by_iter [of sample_log 5] by simp
qed


subsection \<open>The scan of a finite text\<close>


lemma set_first_occurrences [simp]: "set (first_occurrences xs) = set xs"
  by (induction xs rule: first_occurrences.induct) auto

lemma distinct_first_occurrences [simp]: "distinct (first_occurrences xs)"
  by (induction xs rule: first_occurrences.induct) auto


















section \<open>Claims about the scanner\<close>

text \<open>
  Claim C6. For every log stream, the evidence has at most 10 entries, no duplicate
  entry, and no line whose lower-cased form contains \<^verbatim>\<open>datadog\<close>. This holds after every
  number of passes of the loop (whether or not the loop ever ends), and so of the
  evidence the scan returns.
\<close>

theorem scan_evidence_invariant:
  "(\<forall>n. evidence_ok (evidence (out (state_of (scan_iter rd n)))))
   \<and> (\<forall>ev. scan rd = Some ev \<longrightarrow> evidence_ok ev)"
proof (intro conjI allI impI)
  fix n
  show "evidence_ok (evidence (out (state_of (scan_iter rd n))))"
    by (rule scan_inv_evidence_ok [of rd], rule ctl_inv_state_of, rule scan_iter_inv)
next
  fix ev assume "scan rd = Some ev"
  then obtain r where "scan_loop rd scan_init = Some r" "ev = evidence (out r)"
    by (auto simp: scan_def)
  then show "evidence_ok ev"
    using scan_inv_evidence_ok scan_loop_inv by blast
qed

theorem scan_evidence_invariant_witness:
  "scan sample_log = Some [''Error: disk full''] \<and> evidence_ok [''Error: disk full'']"
  using scan_evidence_invariant [of sample_log] scan_sample_log by simp




section \<open>The rollout loop: the shape of every run\<close>

declare rollout_loop.simps [simp del]

lemma rollout_loop_done: "count \<le> 0 \<Longrightarrow> rollout_loop view diag name i count = ([], Exit 0)"
  by (subst rollout_loop.simps) simp

lemma rollout_loop_ready:
  "0 < count \<Longrightarrow> printDeploymentStatus (view i) \<Longrightarrow>
   rollout_loop view diag name i count =
     ([Readiness count True, Stdout (success_banner name), Stdout success_text], Exit 0)"
  by (subst rollout_loop.simps) (simp add: rollout_loop_done)

lemma rollout_loop_last:
  "\<not> printDeploymentStatus (view i) \<Longrightarrow> rollout_loop view diag name i 1 = failure_tail diag name"
  by (subst rollout_loop.simps)
    (simp add: failure_tail_def split: option.splits prod.splits fstatus.splits)

lemma rollout_loop_wait:
  "1 < count \<Longrightarrow> \<not> printDeploymentStatus (view i) \<Longrightarrow>
   rollout_loop view diag name i count =
     (Readiness count False # Stdout waiting_notice # Sleep 2
        # fst (rollout_loop view diag name (Suc i) (count - 1)),
      snd (rollout_loop view diag name (Suc i) (count - 1)))"
  by (subst rollout_loop.simps) (simp add: split_beta)

lemma success_at:
  assumes "\<forall>j<k. \<not> printDeploymentStatus (view (i + j))"
    and "printDeploymentStatus (view (i + k))" and "int k < n"
  shows "rollout_loop view diag name i n =
     (waiting_rounds n k
        @ [Readiness (n - int k) True, Stdout (success_banner name), Stdout success_text],
      Exit 0)"
  using assms
proof (induction k arbitrary: i n)
  case 0
  then show ?case by (simp add: rollout_loop_ready)
next
  case (Suc k)
  have "\<not> printDeploymentStatus (view i)" using Suc.prems(1) by force
  moreover have "1 < n" using Suc.prems(3) by simp
  moreover have "rollout_loop view diag name (Suc i) (n - 1) =
     (waiting_rounds (n - 1) k
        @ [Readiness (n - 1 - int k) True, Stdout (success_banner name), Stdout success_text],
      Exit 0)"
  proof (rule Suc.IH)
    show "\<forall>j<k. \<not> printDeploymentStatus (view (Suc i + j))"
      using Suc.prems(1) by (metis Suc_less_eq add_Suc_shift)
    show "printDeploymentStatus (view (Suc i + k))" using Suc.prems(2) by simp
    show "int k < n - 1" using Suc.prems(3) by simp
  qed
  ultimately show ?case by (simp add: rollout_loop_wait algebra_simps)
qed

lemma failure_at:
  assumes "\<forall>j\<le>k. \<not> printDeploymentStatus (view (i + j))"
  shows "rollout_loop view diag name i (int (Suc k)) =
     (waiting_rounds (int (Suc k)) k @ fst (failure_tail diag name),
      snd (failure_tail diag name))"
  using assms
proof (induction k arbitrary: i)
  case 0
  then show ?case by (simp add: rollout_loop_last)
next
  case (Suc k)
  have "\<not> printDeploymentStatus (view i)" using Suc.prems by force
  moreover have "rollout_loop view diag name (Suc i) (int (Suc k)) =
     (waiting_rounds (int (Suc k)) k @ fst (failure_tail diag name),
      snd (failure_tail diag name))"
  proof (rule Suc.IH)
    show "\<forall>j\<le>k. \<not> printDeploymentStatus (view (Suc i + j))"
      using Suc.prems by (metis Suc_le_mono add_Suc_shift)
  qed
  ultimately show ?case
    using rollout_loop_wait [of "int (Suc (Suc k))" view i diag name] by simp
qed


lemma readiness_results_append [simp]:
  "readiness_results (xs @ ys) = readiness_results xs @ readiness_results ys"
  by (induction xs rule: readiness_results.induct) simp_all

lemma readiness_counts_append [simp]:
  "readiness_counts (xs @ ys) = readiness_counts xs @ readiness_counts ys"
  by (induction xs rule: readiness_counts.induct) simp_all

lemma sleeps_append [simp]: "sleeps (xs @ ys) = sleeps xs + sleeps ys"
  by (induction xs rule: sleeps.induct) simp_all

lemma diagnostics_calls_append [simp]:
  "diagnostics_calls (xs @ ys) = diagnostics_calls xs + diagnostics_calls ys"
  by (induction xs rule: diagnostics_calls.induct) simp_all

lemma checks_and_sleeps_append [simp]:
  "checks_and_sleeps (xs @ ys) = checks_and_sleeps xs @ checks_and_sleeps ys"
  by (induction xs rule: checks_and_sleeps.induct) simp_all

lemma waiting_rounds_results [simp]:
  "readiness_results (waiting_rounds n k) = replicate k False"
  by (induction k arbitrary: n) simp_all

lemma waiting_rounds_counts [simp]:
  "readiness_counts (waiting_rounds n k) = map (\<lambda>j. n - int j) [0..<k]"
proof (induction k arbitrary: n)
  case 0
  show ?case by simp
next
  case (Suc k)
  have "map (\<lambda>j. n - int j) [0..<Suc k] = n # map (\<lambda>j. n - 1 - int j) [0..<k]"
    by (simp add: upt_conv_Cons map_Suc_upt [symmetric] del: upt_Suc)
  with Suc show ?case by simp
qed

lemma waiting_rounds_sleeps [simp]: "sleeps (waiting_rounds n k) = k"
  by (induction k arbitrary: n) simp_all

lemma waiting_rounds_diagnostics [simp]: "diagnostics_calls (waiting_rounds n k) = 0"
  by (induction k arbitrary: n) simp_all

lemma waiting_rounds_countdown:
  "checks_and_sleeps (waiting_rounds n k) @ [Readiness (n - int k) b] = countdown n (Suc k) b"
proof (induction k arbitrary: n)
  case 0
  show ?case by simp
next
  case (Suc k)
  from Suc.IH [of "n - 1"] show ?case by (simp add: algebra_simps)
qed

lemma failure_tail_projections [simp]:
  "readiness_results (fst (failure_tail diag name)) = [False]"
  "readiness_counts (fst (failure_tail diag name)) = [1]"
  "sleeps (fst (failure_tail diag name)) = 0"
  "diagnostics_calls (fst (failure_tail diag name)) = 1"
  "checks_and_sleeps (fst (failure_tail diag name)) = [Readiness 1 False]"
  by (simp_all add: failure_tail_def split: option.splits prod.splits fstatus.splits)

text \<open>Every run from \<open>count = N \<ge> 1\<close> is one of the two: ready at some check, or never.\<close>

lemma rollout_loop_cases:
  assumes "1 \<le> N"
  obtains (ready) k where "int k < N"
      "rollout_loop view diag name i N =
         (waiting_rounds N k
            @ [Readiness (N - int k) True, Stdout (success_banner name), Stdout success_text],
          Exit 0)"
  | (never) "rollout_loop view diag name i N =
         (waiting_rounds N (nat N - 1) @ fst (failure_tail diag name),
          snd (failure_tail diag name))"
proof (cases "\<exists>j. int j < N \<and> printDeploymentStatus (view (i + j))")
  case True
  define k where "k = (LEAST j. int j < N \<and> printDeploymentStatus (view (i + j)))"
  have k: "int k < N" "printDeploymentStatus (view (i + k))"
    using LeastI_ex [OF True] by (simp_all add: k_def)
  have "\<not> printDeploymentStatus (view (i + j))" if "j < k" for j
    using not_less_Least [of j "\<lambda>j. int j < N \<and> printDeploymentStatus (view (i + j))"] that k(1)
    by (auto simp: k_def)
  then have "\<forall>j<k. \<not> printDeploymentStatus (view (i + j))" by blast
  from success_at [OF this k(2) k(1)] k(1) show ?thesis by (rule ready [rotated])
next
  case False
  define m where "m = nat N - 1"
  have m: "N = int (Suc m)" using assms by (simp add: m_def)
  have e: "int (Suc m) = N" using m by simp
  have "\<forall>j\<le>m. \<not> printDeploymentStatus (view (i + j))" using False m by auto
  from failure_at [OF this, of diag name] show ?thesis
    unfolding e unfolding m_def by (rule never)
qed

lemma ready_deployment [simp]: "printDeploymentStatus ready_deployment"
  by (simp add: printDeploymentStatus_def ready_deployment_def)

lemma unready_deployment [simp]: "\<not> printDeploymentStatus unready_deployment"
  by (simp add: printDeploymentStatus_def unready_deployment_def)

lemma rollout_loop_ending:
  assumes "1 \<le> N"
  shows "snd (rollout_loop view diag name i N) =
     (if \<exists>j. int j < N \<and> printDeploymentStatus (view (i + j)) then Exit 0
      else snd (failure_tail diag name))"
proof (cases "\<exists>j. int j < N \<and> printDeploymentStatus (view (i + j))")
  case True
  define k where "k = (LEAST j. int j < N \<and> printDeploymentStatus (view (i + j)))"
  have k: "int k < N" "printDeploymentStatus (view (i + k))"
    using LeastI_ex [OF True] by (simp_all add: k_def)
  have "\<not> printDeploymentStatus (view (i + j))" if "j < k" for j
    using not_less_Least [of j "\<lambda>j. int j < N \<and> printDeploymentStatus (view (i + j))"] that k(1)
    by (auto simp: k_def)
  then have "\<forall>j<k. \<not> printDeploymentStatus (view (i + j))" by blast
  from success_at [OF this k(2) k(1), of diag name] True show ?thesis by simp
next
  case False
  define m where "m = nat N - 1"
  have m: "N = int (Suc m)" using assms by (simp add: m_def)
  have "\<forall>j\<le>m. \<not> printDeploymentStatus (view (i + j))" using False m by auto
  from failure_at [OF this, of diag name]
  have "snd (rollout_loop view diag name i N) = snd (failure_tail diag name)" by (simp add: m)
  with False show ?thesis by (simp only: if_False)
qed

lemma failure_tail_NoExit: "snd (failure_tail diag name) = NoExit \<longleftrightarrow> diag = None"
  by (simp add: failure_tail_def split: option.splits prod.splits fstatus.splits)

lemma poll_loop_checks_and_sleeps:
  assumes "1 \<le> N"
  shows "\<exists>k b. 1 \<le> k \<and> int k \<le> N
     \<and> checks_and_sleeps (fst (rollout_loop view diag name i N)) = countdown N k b
     \<and> readiness_counts (fst (rollout_loop view diag name i N)) = map (\<lambda>j. N - int j) [0..<k]
     \<and> length (readiness_results (fst (rollout_loop view diag name i N))) = k
     \<and> sleeps (fst (rollout_loop view diag name i N)) = k - 1
     \<and> length (readiness_results (fst (rollout_loop view diag name i N))) \<le> nat N
     \<and> sleeps (fst (rollout_loop view diag name i N)) \<le> nat N - 1"
  using assms
proof (cases rule: rollout_loop_cases [of N view diag name i])
  case (ready k)
  have c: "map (\<lambda>j. N - int j) [0..<k] @ [N - int k] = map (\<lambda>j. N - int j) [0..<Suc k]"
    by simp
  show ?thesis
    by (rule exI [of _ "Suc k"], rule exI [of _ True])
      (use ready in \<open>simp add: waiting_rounds_countdown c del: upt_Suc\<close>, linarith)
next
  case never
  define k where "k = nat N - 1"
  have k: "N = int (Suc k)" using assms by (simp add: k_def)
  have e: "N - int k = 1" using k by simp
  have c: "map (\<lambda>j. N - int j) [0..<k] @ [1] = map (\<lambda>j. N - int j) [0..<Suc k]"
    using e by simp
  have d: "checks_and_sleeps (waiting_rounds N k) @ [Readiness 1 False] = countdown N (Suc k) False"
    using waiting_rounds_countdown [of N k False] e by simp
  have n: "nat N = Suc k" using k by simp
  show ?thesis
    by (rule exI [of _ "Suc k"], rule exI [of _ False])
      (use never in \<open>simp add: k_def [symmetric] c d n del: upt_Suc\<close>, simp add: k)
qed

section \<open>Claims about the rollout loop\<close>

text \<open>
  Claim C3. When the readiness check is first true on attempt \<open>k\<close>, \<open>k \<le> N\<close>, the run is
  \<open>k - 1\<close> waiting rounds, the \<open>k\<close>-th check and the two success messages, and the
  process ends with exit status 0: \<open>k\<close> checks, \<open>k - 1\<close> sleeps, no call of the
  diagnostics, nothing after the success message.
\<close>

theorem stops_at_first_ready:
  assumes "1 \<le> k" and "int k \<le> N"
    and "\<forall>j<k - 1. \<not> printDeploymentStatus (view j)"
    and "printDeploymentStatus (view (k - 1))"
  shows "rollout_loop view diag name 0 N =
       (waiting_rounds N (k - 1)
          @ [Readiness (N - int (k - 1)) True, Stdout (success_banner name), Stdout success_text],
        Exit 0)
     \<and> readiness_results (fst (rollout_loop view diag name 0 N)) = replicate (k - 1) False @ [True]
     \<and> sleeps (fst (rollout_loop view diag name 0 N)) = k - 1
     \<and> diagnostics_calls (fst (rollout_loop view diag name 0 N)) = 0"
proof -
  have "rollout_loop view diag name 0 N =
       (waiting_rounds N (k - 1)
          @ [Readiness (N - int (k - 1)) True, Stdout (success_banner name), Stdout success_text],
        Exit 0)"
    by (rule success_at) (use assms in simp_all)
  then show ?thesis by simp
qed


theorem stops_at_first_ready_witness:
  "rollout_loop (ready_from 2) None ''web'' 0 6 =
       (waiting_rounds 6 2
          @ [Readiness 4 True, Stdout (success_banner ''web''), Stdout success_text],
        Exit 0)
   \<and> readiness_results (fst (rollout_loop (ready_from 2) None ''web'' 0 6)) = [False, False, True]
   \<and> sleeps (fst (rollout_loop (ready_from 2) None ''web'' 0 6)) = 2
   \<and> diagnostics_calls (fst (rollout_loop (ready_from 2) None ''web'' 0 6)) = 0"
proof -
  have 1: "1 \<le> (3::nat)" and 2: "int 3 \<le> 6" by simp_all
  have 3: "\<forall>j<3 - 1. \<not> printDeploymentStatus (ready_from 2 j)"
    by (simp add: ready_from_def)
  have 4: "printDeploymentStatus (ready_from 2 (3 - 1))" by (simp add: ready_from_def)
  from stops_at_first_ready [OF 1 2 3 4, of None "''web''"] show ?thesis
    by (simp add: numeral_2_eq_2)
qed

section \<open>Diagnostics: the decision for one container\<close>

lemma classify_refines: "classify c = classify_spec c"
  by (auto simp: classify_def classify_spec_def Let_def split: option.splits)

lemma printContainerStatus_act_on:
  "printContainerStatus pod c cl ns = act_on (classify c) pod c cl ns"
  by (auto simp: printContainerStatus_def classify_def act_on_def
      split: option.splits list.splits get_result.splits)

lemma classify_rules:
  "is_healthy c \<Longrightarrow> classify c = HealthyRunning"
  "\<not> is_healthy c \<Longrightarrow> Waiting (State c) = Some w \<Longrightarrow>
     Reason w = ''ImagePullBackOff'' \<or> Reason w = ''ErrImagePull'' \<Longrightarrow>
     classify c = KnownReason (Reason w) (Message w)"
  "\<not> is_healthy c \<Longrightarrow> Waiting (State c) = Some w \<Longrightarrow>
     Reason w = ''CreateContainerConfigError'' \<Longrightarrow>
     classify c = KnownReason (Reason w) (Message w)"
  "\<not> is_healthy c \<Longrightarrow> Waiting (State c) = None \<Longrightarrow> classify c = RequiresLogScan"
  "\<not> is_healthy c \<Longrightarrow> Waiting (State c) = Some w \<Longrightarrow>
     Reason w \<noteq> ''ImagePullBackOff'' \<Longrightarrow> Reason w \<noteq> ''ErrImagePull'' \<Longrightarrow>
     Reason w \<noteq> ''CreateContainerConfigError'' \<Longrightarrow> classify c = RequiresLogScan"
  by (auto simp: classify_def is_healthy_def)

lemma getPodlogs_not_running_note:
  "getPodlogs p c ns cl \<noteq> Some ([Printf text], Returned)"
  by (simp add: getPodlogs_def Let_def split: stream_result.splits option.splits)

lemma running_report_iff:
  "printContainerStatus pod c cl ns = Some ([Printf (running_note (Name c))], Returned)
     \<longleftrightarrow> is_healthy c"
proof
  assume "is_healthy c"
  then show "printContainerStatus pod c cl ns = Some ([Printf (running_note (Name c))], Returned)"
    by (auto simp: printContainerStatus_def is_healthy_def)
next
  assume r: "printContainerStatus pod c cl ns = Some ([Printf (running_note (Name c))], Returned)"
  show "is_healthy c"
  proof (rule ccontr)
    assume "\<not> is_healthy c"
    then have "printContainerStatus pod c cl ns \<noteq> Some ([Printf (running_note (Name c))], Returned)"
      using getPodlogs_not_running_note [of "PodName pod" c ns cl "running_note (Name c)"]
      by (auto simp: printContainerStatus_def is_healthy_def
          split: option.splits list.splits get_result.splits)
    with r show False by contradiction
  qed
qed

lemma scanner_snapshot:
  assumes "(state_Running c \<and> \<not> Ready c) \<or> state_Terminated c \<or> state_less c"
  shows "\<not> is_healthy c" and "Waiting (State c) = None"
  using assms by (auto simp: state_Running_def state_Terminated_def state_less_def is_healthy_def)

section \<open>Claims about the classification of a container\<close>

text \<open>
  Claim C5. The decision of \<^verbatim>\<open>printPodStatus\<close> for a container is a function of the
  snapshot (so it is total and the same snapshot always gets the same class), its value
  is one of the three classes, it equals the specification's ordered rules
  (\<open>classify_spec\<close>), and it is the decision the code acts on (\<open>act_on\<close>): Running and
  ready gives HealthyRunning; otherwise Waiting with reason \<^verbatim>\<open>ImagePullBackOff\<close> or
  \<^verbatim>\<open>ErrImagePull\<close> gives KnownReason; otherwise Waiting with reason
  \<^verbatim>\<open>CreateContainerConfigError\<close> gives KnownReason; every other snapshot gives
  RequiresLogScan.
\<close>

theorem classify_total_priority:
  "classify c = classify_spec c
   \<and> printContainerStatus pod c cl ns = act_on (classify c) pod c cl ns
   \<and> (classify c = HealthyRunning \<or> (\<exists>r m. classify c = KnownReason r m)
        \<or> classify c = RequiresLogScan)
   \<and> (is_healthy c \<longrightarrow> classify c = HealthyRunning)
   \<and> (\<not> is_healthy c \<and> Waiting (State c) = Some w
        \<and> (Reason w = ''ImagePullBackOff'' \<or> Reason w = ''ErrImagePull'')
      \<longrightarrow> classify c = KnownReason (Reason w) (Message w))
   \<and> (\<not> is_healthy c \<and> Waiting (State c) = Some w
        \<and> Reason w = ''CreateContainerConfigError''
      \<longrightarrow> classify c = KnownReason (Reason w) (Message w))
   \<and> (\<not> is_healthy c
        \<and> (Waiting (State c) = None
            \<or> (Waiting (State c) = Some w \<and> Reason w \<noteq> ''ImagePullBackOff''
                \<and> Reason w \<noteq> ''ErrImagePull'' \<and> Reason w \<noteq> ''CreateContainerConfigError''))
      \<longrightarrow> classify c = RequiresLogScan)"
proof (intro conjI impI)
  show "classify c = classify_spec c" by (rule classify_refines)
  show "printContainerStatus pod c cl ns = act_on (classify c) pod c cl ns"
    by (rule printContainerStatus_act_on)
  show "classify c = HealthyRunning \<or> (\<exists>r m. classify c = KnownReason r m)
        \<or> classify c = RequiresLogScan"
    by (cases "classify c") simp_all
qed (use classify_rules [of c] in blast)+


theorem classify_total_priority_witness:
  "classify pull_backoff_container = classify_spec pull_backoff_container
   \<and> classify pull_backoff_container = KnownReason ''ImagePullBackOff'' ''Back-off pulling image''
   \<and> classify unready_running_container = RequiresLogScan"
proof -
  let ?w = "\<lparr>Reason = ''ImagePullBackOff'', Message = ''Back-off pulling image''\<rparr>"
  have 1: "\<not> is_healthy pull_backoff_container \<and> Waiting (State pull_backoff_container) = Some ?w
      \<and> (Reason ?w = ''ImagePullBackOff'' \<or> Reason ?w = ''ErrImagePull'')"
    by (simp add: is_healthy_def pull_backoff_container_def)
  have 2: "\<not> is_healthy unready_running_container
      \<and> (Waiting (State unready_running_container) = None
          \<or> (Waiting (State unready_running_container) = Some w
              \<and> Reason w \<noteq> ''ImagePullBackOff''
              \<and> Reason w \<noteq> ''ErrImagePull'' \<and> Reason w \<noteq> ''CreateContainerConfigError''))" for w
    by (simp add: is_healthy_def unready_running_container_def)
  note a = classify_total_priority [of pull_backoff_container _ _ _ ?w]
  note b = classify_total_priority [of unready_running_container]
  have "classify pull_backoff_container = classify_spec pull_backoff_container"
    using a by (rule conjunct1)
  moreover have "classify pull_backoff_container = KnownReason (Reason ?w) (Message ?w)"
    using a 1 by blast
  moreover have "classify unready_running_container = RequiresLogScan"
    using b 2 by blast
  ultimately show ?thesis by simp
qed

section \<open>Runs in which the report is cut short\<close>

subsection \<open>The shape of \<^verbatim>\<open>main\<close> for the deployment object it fetched\<close>

lemma main_run_ready:
  "printDeploymentStatus (cluster_deployment 0) \<Longrightarrow>
   main_run cluster_deployment pods cl ns name =
     ([Readiness 6 True, Stdout (success_banner name), Stdout success_text], Exit 0)"
  by (simp add: main_run_def rollout_loop_ready)

lemma main_run_never_ready:
  assumes "\<not> printDeploymentStatus (cluster_deployment 0)"
  shows "main_run cluster_deployment pods cl ns name =
     (waiting_rounds 6 5 @ fst (failure_tail (printPodStatus pods cl ns) name),
      snd (failure_tail (printPodStatus pods cl ns) name))"
proof -
  have "\<forall>j\<le>5. \<not> printDeploymentStatus ((\<lambda>_. cluster_deployment 0) (0 + j))"
    using assms by simp
  from failure_at [OF this, of "printPodStatus pods cl ns" name]
  show ?thesis by (simp add: main_run_def)
qed

lemma failure_tail_not_success: "snd (failure_tail diag name) \<noteq> Exit 0"
  by (simp add: failure_tail_def split: option.splits prod.splits fstatus.splits)

lemma ready_from_0 [simp]: "\<not> printDeploymentStatus (ready_from (Suc k) 0)"
  by (simp add: ready_from_def)

subsection \<open>A read error that never goes away\<close>

lemma scan_iter_persistent_error:
  assumes "\<forall>i. \<exists>e. rd i = ReadErr e \<and> e \<noteq> ''EOF''"
  shows "\<exists>s. scan_iter rd n = Continue s"
proof (induction n)
  case 0
  show ?case by simp
next
  case (Suc n)
  then obtain s where s: "scan_iter rd n = Continue s" by blast
  obtain e where "rd (reads s) = ReadErr e" "e \<noteq> ''EOF''" using assms by blast
  then show ?case using s by (simp add: scan_body_def filter_line_def)
qed

lemma scan_loop_persistent_error:
  assumes "\<forall>i. \<exists>e. rd i = ReadErr e \<and> e \<noteq> ''EOF''"
  shows "scan_loop rd scan_init = None"
proof (rule ccontr)
  assume "scan_loop rd scan_init \<noteq> None"
  then obtain r where "scan_loop rd scan_init = Some r" by blast
  then obtain n where "scan_iter rd n = Break r" by (auto simp: scan_loop_iff)
  with scan_iter_persistent_error [OF assms, of n] show False by simp
qed

subsection \<open>The first container of the first pod\<close>

lemma printPodStatus_first_panics:
  assumes "ContainerStatuses pod = c # cs"
    and "printContainerStatus pod c cl ns = Some (p, Panicked m)"
  shows "printPodStatus (pod # pods) cl ns =
           Some (Printf (pod_banner (PodName pod)) # p, Panicked m)"
  using assms by (simp add: printPodStatus_def then_run_def)

lemma printPodStatus_first_hangs:
  assumes "ContainerStatuses pod = c # cs"
    and "printContainerStatus pod c cl ns = None"
  shows "printPodStatus (pod # pods) cl ns = None"
  using assms by (simp add: printPodStatus_def then_run_def)

lemma printContainerStatus_no_secret:
  assumes "\<not> is_healthy c" and "Waiting (State c) = Some w"
    and "Reason w = ''ImagePullBackOff'' \<or> Reason w = ''ErrImagePull''"
    and "ImagePullSecrets pod = []"
  shows "printContainerStatus pod c cl ns =
           Some ([PrintJson (State c)], Panicked index_out_of_range)"
  using assms by (auto simp: printContainerStatus_def is_healthy_def)

lemma printContainerStatus_log_scan:
  "classify c = RequiresLogScan \<Longrightarrow>
   printContainerStatus pod c cl ns = getPodlogs (PodName pod) c ns cl"
  by (simp add: printContainerStatus_act_on act_on_def)

lemma getPodlogs_open_failure:
  "GetLogsStream cl ns podName (Name c) = StreamErr e \<Longrightarrow>
   getPodlogs podName c ns cl =
     Some ([Printf (''Conatiner['' @ Name c @ '']:''), PrintJson (State c),
            Printf (''Error getting logs: '' @ e)], Panicked nil_dereference)"
  by (simp add: getPodlogs_def)

lemma getPodlogs_persistent_error:
  "GetLogsStream cl ns podName (Name c) = Stream rd \<Longrightarrow>
   \<forall>i. \<exists>e. rd i = ReadErr e \<and> e \<noteq> ''EOF'' \<Longrightarrow>
   getPodlogs podName c ns cl = None"
  by (simp add: getPodlogs_def scan_loop_persistent_error)

lemma no_secret_pod_report:
  "printPodStatus [no_secret_pod, healthy_pod] cl ns =
     Some ([Printf (pod_banner ''web-1''), PrintJson (State pull_backoff_container)],
           Panicked index_out_of_range)"
proof -
  have "printContainerStatus no_secret_pod pull_backoff_container cl ns =
          Some ([PrintJson (State pull_backoff_container)], Panicked index_out_of_range)"
    by (rule printContainerStatus_no_secret
          [where w = "\<lparr>Reason = ''ImagePullBackOff'', Message = ''Back-off pulling image''\<rparr>"])
       (simp_all add: is_healthy_def pull_backoff_container_def no_secret_pod_def)
  from printPodStatus_first_panics [OF _ this, of "[]" "[healthy_pod]"]
  show ?thesis by (simp add: no_secret_pod_def)
qed

lemma crashed_container_class: "classify crashed_container = RequiresLogScan"
  by (simp add: classify_def crashed_container_def)

lemma crashed_pod_report_hangs:
  "printPodStatus [crashed_pod, healthy_pod] broken_stream_cluster ns = None"
proof -
  have "getPodlogs (PodName crashed_pod) crashed_container ns broken_stream_cluster = None"
    by (rule getPodlogs_persistent_error
          [where rd = "\<lambda>i. ReadErr ''connection reset by peer''"])
       (simp_all add: broken_stream_cluster_def)
  then have "printContainerStatus crashed_pod crashed_container broken_stream_cluster ns = None"
    by (simp add: printContainerStatus_log_scan crashed_container_class)
  from printPodStatus_first_hangs [OF _ this, of "[]" "[healthy_pod]"]
  show ?thesis by (simp add: crashed_pod_def)
qed

lemma healthy_pod_report:
  "printPodStatus [healthy_pod] cl ns =
     Some ([Printf (pod_banner ''web-3''), Printf (running_note ''sidecar'')], Returned)"
  by (simp add: printPodStatus_def then_run_def printContainerStatus_def healthy_pod_def
        healthy_container_def)

subsection \<open>Statements in sequence\<close>

lemma then_run_Returned_Nil [simp]: "then_run (Some ([], Returned)) r = r"
  by (simp add: then_run_def split: option.splits)

lemma then_run_Panicked [simp]: "then_run (Some (p, Panicked m)) r = Some (p, Panicked m)"
  by (simp add: then_run_def)

lemma then_run_None [simp]: "then_run None r = None"
  by (simp add: then_run_def)

lemma then_run_assoc: "then_run (then_run a b) c = then_run a (then_run b c)"
  by (simp add: then_run_def split: option.splits prod.splits fstatus.splits)

lemma run_all_append: "run_all (xs @ ys) = then_run (run_all xs) (run_all ys)"
  by (induction xs) (simp_all add: then_run_assoc)

lemma printPodStatus_append:
  "printPodStatus (ps1 @ ps2) cl ns = then_run (printPodStatus ps1 cl ns) (printPodStatus ps2 cl ns)"
  by (simp add: printPodStatus_def run_all_append)

lemma printPodStatus_Cons:
  "printPodStatus (pod # ps) cl ns =
     then_run (then_run (Some ([Printf (pod_banner (PodName pod))], Returned))
                 (run_all (map (\<lambda>c. printContainerStatus pod c cl ns) (ContainerStatuses pod))))
       (printPodStatus ps cl ns)"
  by (simp add: printPodStatus_def)

lemma printPodStatus_split:
  assumes "ContainerStatuses pod = before @ c # after"
  shows "printPodStatus (earlier @ pod # later) cl ns =
     then_run (report_before earlier pod before cl ns)
       (then_run (printContainerStatus pod c cl ns) (report_after pod after later cl ns))"
  by (simp add: printPodStatus_append printPodStatus_Cons assms run_all_append then_run_assoc
        report_before_def report_after_def)

lemma scan_loop_empty_stream:
  "scan_loop (\<lambda>i. ReadErr ''EOF'') scan_init =
     Some \<lparr>reads = 1, lineCount = 0, seenLines = (\<lambda>_. False), out = []\<rparr>"
  by (subst scan_loop.simps) (simp add: scan_body_def scan_init_def)

lemma report_before_healthy:
  "report_before [healthy_pod] unready_pod [] cl ns =
     Some ([Printf (pod_banner ''web-3''), Printf (running_note ''sidecar''),
            Printf (pod_banner ''web-4'')], Returned)"
  by (simp add: report_before_def healthy_pod_report then_run_def unready_pod_def)

lemma report_before_no_secret:
  "report_before [no_secret_pod] unready_pod [] cl ns =
     Some ([Printf (pod_banner ''web-1''), PrintJson (State pull_backoff_container)],
           Panicked index_out_of_range)"
proof -
  have "printContainerStatus no_secret_pod pull_backoff_container cl ns =
          Some ([PrintJson (State pull_backoff_container)], Panicked index_out_of_range)"
    by (rule printContainerStatus_no_secret
          [where w = "\<lparr>Reason = ''ImagePullBackOff'', Message = ''Back-off pulling image''\<rparr>"])
       (simp_all add: is_healthy_def pull_backoff_container_def no_secret_pod_def)
  from printPodStatus_first_panics [OF _ this, of "[]" "[]"]
  have "printPodStatus [no_secret_pod] cl ns =
     Some ([Printf (pod_banner ''web-1''), PrintJson (State pull_backoff_container)],
           Panicked index_out_of_range)"
    by (simp add: no_secret_pod_def)
  then show ?thesis by (simp add: report_before_def)
qed

section \<open>Claims that the program does not meet\<close>

text \<open>
  Claim C1 asks that every pass of the rollout loop computes readiness from a new query
  of the cluster, so that no value seen on an earlier pass is used again. The program
  fetches the deployment object once, at line 52, before the loop, and every pass gives
  that same object to \<^verbatim>\<open>printDeploymentStatus\<close>, which reads nothing else. So a run
  depends on the state of the cluster at time 0 only. For a deployment that is not
  available when it is fetched and is available from the next instant on
  (\<open>ready_from 1\<close>) all six checks are false and the run does not exit with status 0,
  while the same loop given a fresh view of the cluster on every pass succeeds at its
  second check.
\<close>

theorem readiness_read_once:
  "main_run cluster_deployment pods cl ns name =
     main_run (\<lambda>t. cluster_deployment 0) pods cl ns name
   \<and> readiness_results (fst (main_run (ready_from 1) pods cl ns name)) = replicate 6 False
   \<and> snd (main_run (ready_from 1) pods cl ns name) \<noteq> Exit 0
   \<and> rollout_loop (ready_from 1) diag name 0 6 =
       ([Readiness 6 False, Stdout waiting_notice, Sleep 2,
         Readiness 5 True, Stdout (success_banner name), Stdout success_text], Exit 0)"
proof (intro conjI)
  show "main_run cluster_deployment pods cl ns name =
     main_run (\<lambda>t. cluster_deployment 0) pods cl ns name"
    by (simp add: main_run_def)
  have "\<not> printDeploymentStatus (ready_from 1 0)" by simp
  note n = main_run_never_ready [of "ready_from 1", OF this]
  show "readiness_results (fst (main_run (ready_from 1) pods cl ns name)) = replicate 6 False"
    unfolding n by (simp add: numeral_eq_Suc)
  show "snd (main_run (ready_from 1) pods cl ns name) \<noteq> Exit 0"
    unfolding n by (simp add: failure_tail_not_success)
  have "\<forall>j<1. \<not> printDeploymentStatus (ready_from 1 (0 + j))" by (simp add: ready_from_def)
  moreover have "printDeploymentStatus (ready_from 1 (0 + 1))" by (simp add: ready_from_def)
  ultimately have "rollout_loop (ready_from 1) diag name 0 6 =
     (waiting_rounds 6 1
        @ [Readiness (6 - int 1) True, Stdout (success_banner name), Stdout success_text],
      Exit 0)"
    by (rule success_at) simp
  then show "rollout_loop (ready_from 1) diag name 0 6 =
       ([Readiness 6 False, Stdout waiting_notice, Sleep 2,
         Readiness 5 True, Stdout (success_banner name), Stdout success_text], Exit 0)"
    by simp
qed

text \<open>
  Claim C4 asks that a run whose readiness is false on all attempts reports the failure,
  calls the pod diagnostics exactly once, and ends the process with a status other than
  0. The loop does call the diagnostics once on the last pass, and when that call returns
  the failure banner is printed and \<^verbatim>\<open>log.Fatalf\<close> ends the process with status 1. But
  the banner and \<^verbatim>\<open>log.Fatalf\<close> come after the call: when the diagnostics panic the process
  ends with the status of a panic and the failure is never reported, and when the
  diagnostics never return the process never ends.
\<close>

theorem failure_report_needs_diagnostics_to_return:
  assumes "\<not> printDeploymentStatus (cluster_deployment 0)"
  shows "(\<forall>p. printPodStatus pods cl ns = Some (p, Returned) \<longrightarrow>
            main_run cluster_deployment pods cl ns name =
              (waiting_rounds 6 5
                 @ [Readiness 1 False, Stdout checking_notice, Diagnostics (Some (p, Returned)),
                    Stdout (failure_banner name), Fatalf failed_text], Exit 1))
       \<and> (\<forall>p m. printPodStatus pods cl ns = Some (p, Panicked m) \<longrightarrow>
            main_run cluster_deployment pods cl ns name =
              (waiting_rounds 6 5
                 @ [Readiness 1 False, Stdout checking_notice,
                    Diagnostics (Some (p, Panicked m))], Exit 2))
       \<and> (printPodStatus pods cl ns = None \<longrightarrow>
            main_run cluster_deployment pods cl ns name =
              (waiting_rounds 6 5
                 @ [Readiness 1 False, Stdout checking_notice, Diagnostics None], NoExit))"
  by (simp add: main_run_never_ready [of cluster_deployment, OF assms] failure_tail_def)

theorem failure_report_needs_diagnostics_to_return_witness:
  "main_run (\<lambda>t. unready_deployment) [no_secret_pod, healthy_pod] quiet_cluster ''prod'' ''web'' =
     (waiting_rounds 6 5
        @ [Readiness 1 False, Stdout checking_notice,
           Diagnostics (Some ([Printf (pod_banner ''web-1''),
                               PrintJson (State pull_backoff_container)],
                              Panicked index_out_of_range))], Exit 2)
   \<and> main_run (\<lambda>t. unready_deployment) [crashed_pod, healthy_pod] broken_stream_cluster
        ''prod'' ''web'' =
     (waiting_rounds 6 5 @ [Readiness 1 False, Stdout checking_notice, Diagnostics None], NoExit)
   \<and> main_run (\<lambda>t. unready_deployment) [healthy_pod] quiet_cluster ''prod'' ''web'' =
     (waiting_rounds 6 5
        @ [Readiness 1 False, Stdout checking_notice,
           Diagnostics (Some ([Printf (pod_banner ''web-3''),
                               Printf (running_note ''sidecar'')], Returned)),
           Stdout (failure_banner ''web''), Fatalf failed_text], Exit 1)"
proof (intro conjI)
  have u: "\<not> printDeploymentStatus ((\<lambda>t. unready_deployment) 0)" by simp
  note a = failure_report_needs_diagnostics_to_return
    [of "\<lambda>t. unready_deployment", OF u,
     where pods = "[no_secret_pod, healthy_pod]" and cl = quiet_cluster and ns = "''prod''"
       and name = "''web''"]
  note b = failure_report_needs_diagnostics_to_return
    [of "\<lambda>t. unready_deployment", OF u,
     where pods = "[crashed_pod, healthy_pod]" and cl = broken_stream_cluster and ns = "''prod''"
       and name = "''web''"]
  note c = failure_report_needs_diagnostics_to_return
    [of "\<lambda>t. unready_deployment", OF u,
     where pods = "[healthy_pod]" and cl = quiet_cluster and ns = "''prod''"
       and name = "''web''"]
  show "main_run (\<lambda>t. unready_deployment) [no_secret_pod, healthy_pod] quiet_cluster
          ''prod'' ''web'' =
     (waiting_rounds 6 5
        @ [Readiness 1 False, Stdout checking_notice,
           Diagnostics (Some ([Printf (pod_banner ''web-1''),
                               PrintJson (State pull_backoff_container)],
                              Panicked index_out_of_range))], Exit 2)"
    by (rule a [THEN conjunct2, THEN conjunct1, rule_format]) (rule no_secret_pod_report)
  show "main_run (\<lambda>t. unready_deployment) [crashed_pod, healthy_pod] broken_stream_cluster
        ''prod'' ''web'' =
     (waiting_rounds 6 5 @ [Readiness 1 False, Stdout checking_notice, Diagnostics None], NoExit)"
    by (rule b [THEN conjunct2, THEN conjunct2, rule_format]) (rule crashed_pod_report_hangs)
  show "main_run (\<lambda>t. unready_deployment) [healthy_pod] quiet_cluster ''prod'' ''web'' =
     (waiting_rounds 6 5
        @ [Readiness 1 False, Stdout checking_notice,
           Diagnostics (Some ([Printf (pod_banner ''web-3''),
                               Printf (running_note ''sidecar'')], Returned)),
           Stdout (failure_banner ''web''), Fatalf failed_text], Exit 1)"
    by (rule c [THEN conjunct1, rule_format]) (rule healthy_pod_report)
qed

text \<open>
  Claim C8 asks that a container whose reason is \<^verbatim>\<open>ImagePullBackOff\<close> or \<^verbatim>\<open>ErrImagePull\<close>, in
  a pod with no image pull secret, is reported as a configuration error, neither skipped
  nor a crash. The program reads \<^verbatim>\<open>pod.Spec.ImagePullSecrets[0]\<close> at line 146 without
  looking at the length of the slice: for such a container it prints the state and then
  panics with an index out of range, and nothing of the containers and pods after it is
  reported.
\<close>

theorem missing_pull_secret_panics:
  assumes "\<not> is_healthy c" and "Waiting (State c) = Some w"
    and "Reason w = ''ImagePullBackOff'' \<or> Reason w = ''ErrImagePull''"
    and "ImagePullSecrets pod = []" and "ContainerStatuses pod = c # cs"
  shows "classify c = KnownReason (Reason w) (Message w)
       \<and> printContainerStatus pod c cl ns =
           Some ([PrintJson (State c)], Panicked index_out_of_range)
       \<and> printPodStatus (pod # pods) cl ns =
           Some ([Printf (pod_banner (PodName pod)), PrintJson (State c)],
                 Panicked index_out_of_range)"
proof (intro conjI)
  show "classify c = KnownReason (Reason w) (Message w)"
    using classify_rules [of c] assms(1-3) by blast
  show p: "printContainerStatus pod c cl ns =
           Some ([PrintJson (State c)], Panicked index_out_of_range)"
    using assms(1-4) by (rule printContainerStatus_no_secret)
  show "printPodStatus (pod # pods) cl ns =
           Some ([Printf (pod_banner (PodName pod)), PrintJson (State c)],
                 Panicked index_out_of_range)"
    using assms(5) p by (rule printPodStatus_first_panics)
qed

theorem missing_pull_secret_panics_witness:
  "classify pull_backoff_container = KnownReason ''ImagePullBackOff'' ''Back-off pulling image''
   \<and> printContainerStatus no_secret_pod pull_backoff_container quiet_cluster ''prod'' =
       Some ([PrintJson (State pull_backoff_container)], Panicked index_out_of_range)
   \<and> printPodStatus [no_secret_pod, healthy_pod] quiet_cluster ''prod'' =
       Some ([Printf (pod_banner ''web-1''), PrintJson (State pull_backoff_container)],
             Panicked index_out_of_range)"
  using missing_pull_secret_panics
    [where c = pull_backoff_container
       and w = "\<lparr>Reason = ''ImagePullBackOff'', Message = ''Back-off pulling image''\<rparr>"
       and pod = no_secret_pod and cs = "[]" and cl = quiet_cluster and ns = "''prod''"
       and pods = "[healthy_pod]"]
  by (simp add: is_healthy_def pull_backoff_container_def no_secret_pod_def)

text \<open>
  Claim C9 asks that a log stream that cannot be opened, or a read error other than
  \<^verbatim>\<open>EOF\<close>, is reported without aborting the scan or the run: the scan ends normally with
  the evidence it has and the rest of the report follows. In the program, when the
  stream cannot be opened the error is printed and \<^verbatim>\<open>getPodlogs\<close> goes on to
  \<^verbatim>\<open>defer podLogs.Close()\<close> with a nil stream, which panics; and when every read fails with
  the same error other than \<^verbatim>\<open>EOF\<close> the loop of the scan prints it again and again and
  never ends. In both runs the report stops at this container, the first of the first
  pod.
\<close>

theorem log_stream_errors_stop_report:
  assumes "classify c = RequiresLogScan" and "ContainerStatuses pod = c # cs"
  shows "(\<forall>e. GetLogsStream cl ns (PodName pod) (Name c) = StreamErr e \<longrightarrow>
            getPodlogs (PodName pod) c ns cl =
              Some ([Printf (''Conatiner['' @ Name c @ '']:''), PrintJson (State c),
                     Printf (''Error getting logs: '' @ e)], Panicked nil_dereference)
            \<and> printPodStatus (pod # pods) cl ns =
              Some ([Printf (pod_banner (PodName pod)),
                     Printf (''Conatiner['' @ Name c @ '']:''), PrintJson (State c),
                     Printf (''Error getting logs: '' @ e)], Panicked nil_dereference))
       \<and> (\<forall>rd. GetLogsStream cl ns (PodName pod) (Name c) = Stream rd
                \<and> (\<forall>i. \<exists>e. rd i = ReadErr e \<and> e \<noteq> ''EOF'') \<longrightarrow>
            getPodlogs (PodName pod) c ns cl = None
            \<and> printPodStatus (pod # pods) cl ns = None)"
proof (intro conjI allI impI)
  fix e
  assume e: "GetLogsStream cl ns (PodName pod) (Name c) = StreamErr e"
  then show g: "getPodlogs (PodName pod) c ns cl =
              Some ([Printf (''Conatiner['' @ Name c @ '']:''), PrintJson (State c),
                     Printf (''Error getting logs: '' @ e)], Panicked nil_dereference)"
    by (rule getPodlogs_open_failure)
  from printPodStatus_first_panics [OF assms(2), of cl ns _ nil_dereference pods]
    g printContainerStatus_log_scan [OF assms(1), of pod cl ns]
  show "printPodStatus (pod # pods) cl ns =
              Some ([Printf (pod_banner (PodName pod)),
                     Printf (''Conatiner['' @ Name c @ '']:''), PrintJson (State c),
                     Printf (''Error getting logs: '' @ e)], Panicked nil_dereference)"
    by simp
next
  fix rd
  assume rd: "GetLogsStream cl ns (PodName pod) (Name c) = Stream rd
                \<and> (\<forall>i. \<exists>e. rd i = ReadErr e \<and> e \<noteq> ''EOF'')"
  then show g: "getPodlogs (PodName pod) c ns cl = None"
    by (simp add: getPodlogs_persistent_error)
  from printPodStatus_first_hangs [OF assms(2), of cl ns pods]
    g printContainerStatus_log_scan [OF assms(1), of pod cl ns]
  show "printPodStatus (pod # pods) cl ns = None" by simp
qed

theorem log_stream_errors_stop_report_witness:
  "printPodStatus [crashed_pod, healthy_pod] no_logs_cluster ''prod'' =
     Some ([Printf (pod_banner ''web-2''), Printf ''Conatiner[app]:'',
            PrintJson (State crashed_container),
            Printf ''Error getting logs: container is waiting to start''],
           Panicked nil_dereference)
   \<and> getPodlogs ''web-2'' crashed_container ''prod'' broken_stream_cluster = None
   \<and> printPodStatus [crashed_pod, healthy_pod] broken_stream_cluster ''prod'' = None"
proof -
  have cs: "ContainerStatuses crashed_pod = crashed_container # []"
    by (simp add: crashed_pod_def)
  note a = log_stream_errors_stop_report [OF crashed_container_class cs,
      where cl = no_logs_cluster and ns = "''prod''" and pods = "[healthy_pod]"]
  note b = log_stream_errors_stop_report [OF crashed_container_class cs,
      where cl = broken_stream_cluster and ns = "''prod''" and pods = "[healthy_pod]"]
  have "GetLogsStream no_logs_cluster ''prod'' (PodName crashed_pod) (Name crashed_container) =
          StreamErr ''container is waiting to start''"
    by (simp add: no_logs_cluster_def)
  from a [THEN conjunct1, rule_format, OF this, THEN conjunct2]
  have 1: "printPodStatus [crashed_pod, healthy_pod] no_logs_cluster ''prod'' =
     Some ([Printf (pod_banner ''web-2''), Printf ''Conatiner[app]:'',
            PrintJson (State crashed_container),
            Printf ''Error getting logs: container is waiting to start''],
           Panicked nil_dereference)"
    by (simp add: crashed_pod_def crashed_container_def)
  have "GetLogsStream broken_stream_cluster ''prod'' (PodName crashed_pod)
          (Name crashed_container) = Stream (\<lambda>i. ReadErr ''connection reset by peer'')
        \<and> (\<forall>i. \<exists>e. (\<lambda>i. ReadErr ''connection reset by peer'') i = ReadErr e \<and> e \<noteq> ''EOF'')"
    by (simp add: broken_stream_cluster_def)
  from b [THEN conjunct2, rule_format, OF this]
  have 2: "getPodlogs ''web-2'' crashed_container ''prod'' broken_stream_cluster = None
     \<and> printPodStatus [crashed_pod, healthy_pod] broken_stream_cluster ''prod'' = None"
    by (simp add: crashed_pod_def)
  from 1 2 show ?thesis by simp
qed

text \<open>
  Claim C2 asks that a run of the loop with \<^verbatim>\<open>count = N\<close>, \<open>N \<ge> 1\<close>, makes at most \<open>N\<close>
  readiness checks and at most \<open>N - 1\<close> sleeps, one sleep between two consecutive checks,
  with a counter that starts at \<open>N\<close> and counts down, so that the loop always ends. The
  bounds hold for every run: there are \<open>k\<close> checks, \<open>1 \<le> k \<le> N\<close>, and \<open>k - 1\<close> sleeps, in
  turn, at the counters \<open>N\<close>, \<open>N - 1\<close>, ... But the loop does not always end: on its last
  pass it calls the pod diagnostics (line 75), and the run ends exactly when some check
  is true or that call comes back. When no check is true and the scan of a log stream
  never ends, the process stays in the last pass for ever.
\<close>

theorem poll_loop_bounded:
  assumes "1 \<le> N"
  shows "(\<exists>k b. 1 \<le> k \<and> int k \<le> N
     \<and> checks_and_sleeps (fst (rollout_loop view diag name i N)) = countdown N k b
     \<and> readiness_counts (fst (rollout_loop view diag name i N)) = map (\<lambda>j. N - int j) [0..<k]
     \<and> length (readiness_results (fst (rollout_loop view diag name i N))) = k
     \<and> sleeps (fst (rollout_loop view diag name i N)) = k - 1
     \<and> length (readiness_results (fst (rollout_loop view diag name i N))) \<le> nat N
     \<and> sleeps (fst (rollout_loop view diag name i N)) \<le> nat N - 1)
   \<and> (snd (rollout_loop view diag name i N) = NoExit \<longleftrightarrow>
        diag = None \<and> (\<forall>j. int j < N \<longrightarrow> \<not> printDeploymentStatus (view (i + j))))"
proof (rule conjI)
  show "\<exists>k b. 1 \<le> k \<and> int k \<le> N
     \<and> checks_and_sleeps (fst (rollout_loop view diag name i N)) = countdown N k b
     \<and> readiness_counts (fst (rollout_loop view diag name i N)) = map (\<lambda>j. N - int j) [0..<k]
     \<and> length (readiness_results (fst (rollout_loop view diag name i N))) = k
     \<and> sleeps (fst (rollout_loop view diag name i N)) = k - 1
     \<and> length (readiness_results (fst (rollout_loop view diag name i N))) \<le> nat N
     \<and> sleeps (fst (rollout_loop view diag name i N)) \<le> nat N - 1"
    using assms by (rule poll_loop_checks_and_sleeps)
  show "snd (rollout_loop view diag name i N) = NoExit \<longleftrightarrow>
        diag = None \<and> (\<forall>j. int j < N \<longrightarrow> \<not> printDeploymentStatus (view (i + j)))"
    unfolding rollout_loop_ending [OF assms] by (auto simp: failure_tail_NoExit)
qed

theorem poll_loop_bounded_witness:
  "(1::int) \<le> 6
   \<and> length (readiness_results (fst (main_run (\<lambda>t. unready_deployment)
        [crashed_pod, healthy_pod] broken_stream_cluster ''prod'' ''web''))) \<le> 6
   \<and> sleeps (fst (main_run (\<lambda>t. unready_deployment)
        [crashed_pod, healthy_pod] broken_stream_cluster ''prod'' ''web'')) \<le> 5
   \<and> snd (main_run (\<lambda>t. unready_deployment)
        [crashed_pod, healthy_pod] broken_stream_cluster ''prod'' ''web'') = NoExit
   \<and> snd (rollout_loop (ready_from 2) None ''web'' 0 6) \<noteq> NoExit"
proof -
  have h: "(1::int) \<le> 6" by simp
  let ?diag = "printPodStatus [crashed_pod, healthy_pod] broken_stream_cluster ''prod''"
  note a = poll_loop_bounded [OF h, of "\<lambda>_. unready_deployment" ?diag "''web''" 0]
  note b = poll_loop_bounded [OF h, of "ready_from 2" None "''web''" 0]
  have m: "main_run (\<lambda>t. unready_deployment) [crashed_pod, healthy_pod] broken_stream_cluster
             ''prod'' ''web'' = rollout_loop (\<lambda>_. unready_deployment) ?diag ''web'' 0 6"
    by (simp add: main_run_def)
  have 1: "length (readiness_results (fst (rollout_loop (\<lambda>_. unready_deployment) ?diag ''web'' 0 6))) \<le> 6
     \<and> sleeps (fst (rollout_loop (\<lambda>_. unready_deployment) ?diag ''web'' 0 6)) \<le> 5"
    using a [THEN conjunct1] by auto
  have "?diag = None \<and> (\<forall>j. int j < 6 \<longrightarrow> \<not> printDeploymentStatus ((\<lambda>_. unready_deployment) (0 + j)))"
    by (simp add: crashed_pod_report_hangs)
  then have 2: "snd (rollout_loop (\<lambda>_. unready_deployment) ?diag ''web'' 0 6) = NoExit"
    using a [THEN conjunct2] by blast
  have "\<not> (\<forall>j. int j < 6 \<longrightarrow> \<not> printDeploymentStatus (ready_from 2 (0 + j)))"
    by (auto simp: ready_from_def intro!: exI [of _ 2])
  then have 3: "snd (rollout_loop (ready_from 2) None ''web'' 0 6) \<noteq> NoExit"
    using b [THEN conjunct2] by blast
  from h 1 2 3 show ?thesis unfolding m by blast
qed

text \<open>
  Claim C10 asks that for every container that is Running but not ready, Terminated, or
  without a state, the diagnostics call the log scanner and do not report it as running,
  and that only a container that is Running and ready is reported as running. The
  branch of \<^verbatim>\<open>printPodStatus\<close> for one container does that: such a container is handed to
  \<^verbatim>\<open>getPodlogs\<close>, and the report "is in running state" is printed exactly for the
  containers that are Running and ready. And \<^verbatim>\<open>printPodStatus\<close> comes to every container
  in turn: its run is what it does before the container, then \<^verbatim>\<open>getPodlogs\<close> for it, then
  the rest. But when the part before the container panics or never returns, the run ends
  there and the scanner is never called for the container.
\<close>

theorem log_scanner_reached_when_report_survives:
  assumes "(state_Running c \<and> \<not> Ready c) \<or> state_Terminated c \<or> state_less c"
    and "ContainerStatuses pod = before @ c # after"
  shows "classify c = RequiresLogScan
     \<and> printContainerStatus pod c cl ns = getPodlogs (PodName pod) c ns cl
     \<and> printContainerStatus pod c cl ns \<noteq> Some ([Printf (running_note (Name c))], Returned)
     \<and> (\<forall>c'. printContainerStatus pod c' cl ns = Some ([Printf (running_note (Name c'))], Returned)
            \<longleftrightarrow> Running (State c') \<noteq> None \<and> Ready c')
     \<and> printPodStatus (earlier @ pod # later) cl ns =
         then_run (report_before earlier pod before cl ns)
           (then_run (getPodlogs (PodName pod) c ns cl) (report_after pod after later cl ns))
     \<and> (\<forall>p m. report_before earlier pod before cl ns = Some (p, Panicked m) \<longrightarrow>
            printPodStatus (earlier @ pod # later) cl ns = Some (p, Panicked m))
     \<and> (report_before earlier pod before cl ns = None \<longrightarrow>
            printPodStatus (earlier @ pod # later) cl ns = None)"
proof (intro conjI allI impI)
  note s = scanner_snapshot [OF assms(1)]
  show cls: "classify c = RequiresLogScan" using classify_rules [of c] s by blast
  then show g: "printContainerStatus pod c cl ns = getPodlogs (PodName pod) c ns cl"
    by (rule printContainerStatus_log_scan)
  show "printContainerStatus pod c cl ns \<noteq> Some ([Printf (running_note (Name c))], Returned)"
    using s(1) by (simp add: running_report_iff)
  show "printContainerStatus pod c' cl ns = Some ([Printf (running_note (Name c'))], Returned)
            \<longleftrightarrow> Running (State c') \<noteq> None \<and> Ready c'" for c'
    by (simp add: running_report_iff is_healthy_def)
  note sp = printPodStatus_split [OF assms(2), of earlier later cl ns]
  show "printPodStatus (earlier @ pod # later) cl ns =
         then_run (report_before earlier pod before cl ns)
           (then_run (getPodlogs (PodName pod) c ns cl) (report_after pod after later cl ns))"
    using sp by (simp only: g)
  show "printPodStatus (earlier @ pod # later) cl ns = Some (p, Panicked m)"
    if "report_before earlier pod before cl ns = Some (p, Panicked m)" for p m
    using sp that by simp
  show "printPodStatus (earlier @ pod # later) cl ns = None"
    if "report_before earlier pod before cl ns = None"
    using sp that by simp
qed

theorem log_scanner_reached_when_report_survives_witness:
  "printPodStatus [healthy_pod, unready_pod] quiet_cluster ''prod'' =
     Some ([Printf (pod_banner ''web-3''), Printf (running_note ''sidecar''),
            Printf (pod_banner ''web-4''), Printf ''Conatiner[app]:'',
            PrintJson (State unready_running_container),
            Printf ''\<newline>\<newline>[NOTE] Reason for Error:\<newline>\<newline>''], Returned)
   \<and> printPodStatus [no_secret_pod, unready_pod] quiet_cluster ''prod'' =
     Some ([Printf (pod_banner ''web-1''), PrintJson (State pull_backoff_container)],
           Panicked index_out_of_range)"
proof -
  have h: "(state_Running unready_running_container \<and> \<not> Ready unready_running_container)
      \<or> state_Terminated unready_running_container \<or> state_less unready_running_container"
    by (simp add: state_Running_def unready_running_container_def)
  have cs: "ContainerStatuses unready_pod = [] @ unready_running_container # []"
    by (simp add: unready_pod_def)
  note a = log_scanner_reached_when_report_survives [OF h cs,
      where earlier = "[healthy_pod]" and later = "[]" and cl = quiet_cluster and ns = "''prod''"]
  note b = log_scanner_reached_when_report_survives [OF h cs,
      where earlier = "[no_secret_pod]" and later = "[]" and cl = quiet_cluster and ns = "''prod''"]
  have g: "getPodlogs (PodName unready_pod) unready_running_container ''prod'' quiet_cluster =
     Some ([Printf ''Conatiner[app]:'', PrintJson (State unready_running_container),
            Printf ''\<newline>\<newline>[NOTE] Reason for Error:\<newline>\<newline>''], Returned)"
    by (simp add: getPodlogs_def quiet_cluster_def scan_loop_empty_stream
          unready_running_container_def unready_pod_def)
  have ra: "report_after unready_pod [] [] quiet_cluster ''prod'' = Some ([], Returned)"
    by (simp add: report_after_def printPodStatus_def)
  from a have "printPodStatus ([healthy_pod] @ unready_pod # []) quiet_cluster ''prod'' =
         then_run (report_before [healthy_pod] unready_pod [] quiet_cluster ''prod'')
           (then_run (getPodlogs (PodName unready_pod) unready_running_container ''prod''
                        quiet_cluster)
              (report_after unready_pod [] [] quiet_cluster ''prod''))"
    by blast
  then have 1: "printPodStatus [healthy_pod, unready_pod] quiet_cluster ''prod'' =
     Some ([Printf (pod_banner ''web-3''), Printf (running_note ''sidecar''),
            Printf (pod_banner ''web-4''), Printf ''Conatiner[app]:'',
            PrintJson (State unready_running_container),
            Printf ''\<newline>\<newline>[NOTE] Reason for Error:\<newline>\<newline>''], Returned)"
    by (simp add: report_before_healthy g ra then_run_def)
  from b report_before_no_secret [of quiet_cluster "''prod''"]
  have "printPodStatus ([no_secret_pod] @ unready_pod # []) quiet_cluster ''prod'' =
     Some ([Printf (pod_banner ''web-1''), PrintJson (State pull_backoff_container)],
           Panicked index_out_of_range)"
    by blast
  then have 2: "printPodStatus [no_secret_pod, unready_pod] quiet_cluster ''prod'' =
     Some ([Printf (pod_banner ''web-1''), PrintJson (State pull_backoff_container)],
           Panicked index_out_of_range)"
    by simp
  from 1 2 show ?thesis by (rule conjI)
qed

end
